theory Spec2Isabelle
  imports Main "HOL-Library.Log_Nat"
begin

section \<open>Rendering numbers in template literals\<close>

text \<open>
  The game keys its tile table by strings such as \<^verbatim>\<open>'0,-1'\<close>, built with the template
  literal \<^verbatim>\<open>`${newPos.q},${newPos.r}`\<close>.  Coordinates, action points and inventory
  counts are JavaScript numbers holding integers; they are modelled as \<open>int\<close> and rendered
  in decimal, with a leading minus sign for negative values, as JavaScript's
  number-to-string conversion does for integers.
\<close>

text \<open>The decimal digit for a number below ten; it is only ever asked for those.\<close>

definition digit_char :: "nat \<Rightarrow> char" where
  "digit_char d = ''0123456789'' ! d"

fun digits :: "nat \<Rightarrow> string" where
  "digits n = (if n < 10 then [digit_char n] else digits (n div 10) @ [digit_char (n mod 10)])"

declare digits.simps [simp del]

definition num_to_string :: "int \<Rightarrow> string" where
  "num_to_string i = (if i < 0 then CHR ''-'' # digits (nat (- i)) else digits (nat i))"

section \<open>Map data\<close>

text \<open>Axial hex coordinates \<^verbatim>\<open>{ q, r }\<close>.\<close>

record pos =
  q :: int
  r :: int

text \<open>
  A tile object.  \<open>resources\<close> is an object literal whose own properties are enumerated in
  insertion order by \<^verbatim>\<open>Object.keys\<close> and \<^verbatim>\<open>Object.entries\<close>; it is kept as an association
  list in that order.
\<close>

record tile =
  type :: string
  color :: string
  icon :: string
  resources :: "(string \<times> int) list"

type_synonym tile_table = "(string \<times> tile) list"

text \<open>The authored table \<^verbatim>\<open>TILE_DATA\<close>, in source order.\<close>

definition TILE_DATA :: tile_table where
  "TILE_DATA = [
    (''0,0'', \<lparr>type = ''home'', color = ''#8B4513'', icon = ''home'', resources = []\<rparr>),
     \<comment> \<open>Ring 1 (immediate neighbors)\<close>
    (''0,-1'', \<lparr>type = ''plain'', color = ''#F0E68C'', icon = ''plain'', resources = [(''wood'', 3), (''herbs'', 1)]\<rparr>),
    (''1,-1'', \<lparr>type = ''plain'', color = ''#F0E68C'', icon = ''plain'', resources = [(''stone'', 2), (''iron'', 1)]\<rparr>),
    (''1,0'', \<lparr>type = ''plain'', color = ''#F0E68C'', icon = ''plain'', resources = [(''wood'', 3), (''herbs'', 1)]\<rparr>),
    (''0,1'', \<lparr>type = ''plain'', color = ''#F0E68C'', icon = ''plain'', resources = [(''wood'', 3), (''herbs'', 1)]\<rparr>),
    (''-1,1'', \<lparr>type = ''plain'', color = ''#F0E68C'', icon = ''plain'', resources = [(''stone'', 2), (''iron'', 1)]\<rparr>),
    (''-1,0'', \<lparr>type = ''plain'', color = ''#F0E68C'', icon = ''plain'', resources = [(''wood'', 3), (''herbs'', 1)]\<rparr>),
     \<comment> \<open>Ring 2\<close>
    (''0,-2'', \<lparr>type = ''forest'', color = ''#228B22'', icon = ''tree'', resources = [(''stone'', 2), (''iron'', 1)]\<rparr>),
    (''1,-2'', \<lparr>type = ''forest'', color = ''#228B22'', icon = ''tree'', resources = [(''fish'', 2), (''water'', 3)]\<rparr>),
    (''2,-2'', \<lparr>type = ''forest'', color = ''#228B22'', icon = ''tree'', resources = [(''stone'', 2), (''iron'', 1)]\<rparr>),
    (''2,-1'', \<lparr>type = ''forest'', color = ''#228B22'', icon = ''tree'', resources = [(''fish'', 2), (''water'', 3)]\<rparr>),
    (''2,0'', \<lparr>type = ''forest'', color = ''#228B22'', icon = ''tree'', resources = [(''stone'', 2), (''iron'', 1)]\<rparr>),
    (''1,1'', \<lparr>type = ''forest'', color = ''#228B22'', icon = ''tree'', resources = [(''stone'', 2), (''iron'', 1)]\<rparr>),
    (''0,2'', \<lparr>type = ''forest'', color = ''#228B22'', icon = ''tree'', resources = [(''stone'', 2), (''iron'', 1)]\<rparr>),
    (''-1,2'', \<lparr>type = ''forest'', color = ''#228B22'', icon = ''tree'', resources = [(''fish'', 2), (''water'', 3)]\<rparr>),
    (''-2,2'', \<lparr>type = ''forest'', color = ''#228B22'', icon = ''tree'', resources = [(''stone'', 2), (''iron'', 1)]\<rparr>),
    (''-2,1'', \<lparr>type = ''forest'', color = ''#228B22'', icon = ''tree'', resources = [(''fish'', 2), (''water'', 3)]\<rparr>),
    (''-2,0'', \<lparr>type = ''forest'', color = ''#228B22'', icon = ''tree'', resources = [(''stone'', 2), (''iron'', 1)]\<rparr>),
    (''-1,-1'', \<lparr>type = ''forest'', color = ''#228B22'', icon = ''tree'', resources = [(''stone'', 2), (''iron'', 1)]\<rparr>),
     \<comment> \<open>Ring 3\<close>
    (''0,-3'', \<lparr>type = ''mountain'', color = ''#CD853F'', icon = ''mountain'', resources = [(''wheat'', 2)]\<rparr>),
    (''1,-3'', \<lparr>type = ''water'', color = ''#4682B4'', icon = ''water'', resources = [(''fish'', 2), (''water'', 3)]\<rparr>),
    (''2,-3'', \<lparr>type = ''water'', color = ''#4682B4'', icon = ''water'', resources = [(''wheat'', 2)]\<rparr>),
    (''3,-3'', \<lparr>type = ''mountain'', color = ''#CD853F'', icon = ''mountain'', resources = [(''wheat'', 2)]\<rparr>),
    (''3,-2'', \<lparr>type = ''water'', color = ''#4682B4'', icon = ''water'', resources = [(''wheat'', 2)]\<rparr>),
    (''3,-1'', \<lparr>type = ''water'', color = ''#4682B4'', icon = ''water'', resources = [(''wheat'', 2)]\<rparr>),
    (''3,0'', \<lparr>type = ''mountain'', color = ''#CD853F'', icon = ''mountain'', resources = [(''wheat'', 2)]\<rparr>),
    (''2,1'', \<lparr>type = ''water'', color = ''#4682B4'', icon = ''water'', resources = [(''wheat'', 2)]\<rparr>),
    (''1,2'', \<lparr>type = ''water'', color = ''#4682B4'', icon = ''water'', resources = [(''wheat'', 2)]\<rparr>),
    (''0,3'', \<lparr>type = ''mountain'', color = ''#CD853F'', icon = ''mountain'', resources = [(''wheat'', 2)]\<rparr>),
    (''-1,3'', \<lparr>type = ''water'', color = ''#4682B4'', icon = ''water'', resources = [(''fish'', 2), (''water'', 3)]\<rparr>),
    (''-2,3'', \<lparr>type = ''water'', color = ''#4682B4'', icon = ''water'', resources = [(''wheat'', 2)]\<rparr>),
    (''-3,3'', \<lparr>type = ''mountain'', color = ''#CD853F'', icon = ''mountain'', resources = [(''wheat'', 2)]\<rparr>),
    (''-3,2'', \<lparr>type = ''water'', color = ''#4682B4'', icon = ''water'', resources = [(''wheat'', 2)]\<rparr>),
    (''-3,1'', \<lparr>type = ''water'', color = ''#4682B4'', icon = ''water'', resources = [(''wheat'', 2)]\<rparr>),
    (''-3,0'', \<lparr>type = ''mountain'', color = ''#CD853F'', icon = ''mountain'', resources = [(''wheat'', 2)]\<rparr>),
    (''-2,-1'', \<lparr>type = ''water'', color = ''#4682B4'', icon = ''water'', resources = [(''wheat'', 2)]\<rparr>),
    (''-1,-2'', \<lparr>type = ''water'', color = ''#4682B4'', icon = ''water'', resources = [(''wheat'', 2)]\<rparr>),
     \<comment> \<open>Ring 4\<close>
    (''0,-4'', \<lparr>type = ''plains'', color = ''#F0E68C'', icon = ''plains'', resources = [(''wheat'', 2)]\<rparr>),
    (''1,-4'', \<lparr>type = ''plains'', color = ''#F0E68C'', icon = ''plains'', resources = [(''wheat'', 2)]\<rparr>),
    (''2,-4'', \<lparr>type = ''plains'', color = ''#F0E68C'', icon = ''plains'', resources = [(''wheat'', 2)]\<rparr>),
    (''3,-4'', \<lparr>type = ''plains'', color = ''#F0E68C'', icon = ''plains'', resources = [(''wheat'', 2)]\<rparr>),
    (''4,-4'', \<lparr>type = ''plains'', color = ''#F0E68C'', icon = ''plains'', resources = [(''wheat'', 2)]\<rparr>),
    (''4,-3'', \<lparr>type = ''plains'', color = ''#F0E68C'', icon = ''plains'', resources = [(''wheat'', 2)]\<rparr>),
    (''4,-2'', \<lparr>type = ''plains'', color = ''#F0E68C'', icon = ''plains'', resources = [(''wheat'', 2)]\<rparr>),
    (''4,-1'', \<lparr>type = ''plains'', color = ''#F0E68C'', icon = ''plains'', resources = [(''wheat'', 2)]\<rparr>),
    (''4,0'', \<lparr>type = ''plains'', color = ''#F0E68C'', icon = ''plains'', resources = [(''wheat'', 2)]\<rparr>),
    (''3,1'', \<lparr>type = ''plains'', color = ''#F0E68C'', icon = ''plains'', resources = [(''wheat'', 2)]\<rparr>),
    (''2,2'', \<lparr>type = ''plains'', color = ''#F0E68C'', icon = ''plains'', resources = [(''wheat'', 2)]\<rparr>),
    (''1,3'', \<lparr>type = ''plains'', color = ''#F0E68C'', icon = ''plains'', resources = [(''wheat'', 2)]\<rparr>),
    (''0,4'', \<lparr>type = ''plains'', color = ''#F0E68C'', icon = ''plains'', resources = [(''wheat'', 2)]\<rparr>),
    (''-1,4'', \<lparr>type = ''plains'', color = ''#F0E68C'', icon = ''plains'', resources = [(''wheat'', 2)]\<rparr>),
    (''-2,4'', \<lparr>type = ''plains'', color = ''#F0E68C'', icon = ''plains'', resources = [(''wheat'', 2)]\<rparr>),
    (''-3,4'', \<lparr>type = ''plains'', color = ''#F0E68C'', icon = ''plains'', resources = [(''wheat'', 2)]\<rparr>),
    (''-4,4'', \<lparr>type = ''plains'', color = ''#F0E68C'', icon = ''plains'', resources = [(''wheat'', 2)]\<rparr>),
    (''-4,3'', \<lparr>type = ''plains'', color = ''#F0E68C'', icon = ''plains'', resources = [(''wheat'', 2)]\<rparr>),
    (''-4,2'', \<lparr>type = ''plains'', color = ''#F0E68C'', icon = ''plains'', resources = [(''wheat'', 2)]\<rparr>),
    (''-4,1'', \<lparr>type = ''plains'', color = ''#F0E68C'', icon = ''plains'', resources = [(''wheat'', 2)]\<rparr>),
    (''-4,0'', \<lparr>type = ''plains'', color = ''#F0E68C'', icon = ''plains'', resources = [(''wheat'', 2)]\<rparr>),
    (''-3,-1'', \<lparr>type = ''plains'', color = ''#F0E68C'', icon = ''plains'', resources = [(''wheat'', 2)]\<rparr>),
    (''-2,-2'', \<lparr>type = ''plains'', color = ''#F0E68C'', icon = ''plains'', resources = [(''wheat'', 2)]\<rparr>),
    (''-1,-3'', \<lparr>type = ''plains'', color = ''#F0E68C'', icon = ''plains'', resources = [(''wheat'', 2)]\<rparr>)
  ]"

text \<open>
  \<^verbatim>\<open>TILE_DATA[key]\<close>: the tile stored under a key, or \<open>None\<close> for \<^verbatim>\<open>undefined\<close>.  The
  table is passed as an argument, so that statements about the actions hold for any
  table; the handlers of the page use \<open>TILE_DATA\<close>.  The keys of \<open>TILE_DATA\<close> are distinct
  (shown below), so looking up the first entry under a key is looking up the only one.
  Every key the handlers build contains a comma, so no inherited property of the object
  is ever hit.
\<close>

definition lookup :: "tile_table \<Rightarrow> string \<Rightarrow> tile option" where
  "lookup tiles key = map_of tiles key"

text \<open>The key \<^verbatim>\<open>`${p.q},${p.r}`\<close> of a coordinate.\<close>

definition key_of :: "pos \<Rightarrow> string" where
  "key_of p = num_to_string (q p) @ '','' @ num_to_string (r p)"

text \<open>Movement directions in axial coordinates.\<close>

datatype direction = N | NE | SE | S | SW | NW

fun DIRECTIONS :: "direction \<Rightarrow> pos" where
  "DIRECTIONS N = \<lparr>q = 0, r = -1\<rparr>"
| "DIRECTIONS NE = \<lparr>q = 1, r = -1\<rparr>"
| "DIRECTIONS SE = \<lparr>q = 1, r = 0\<rparr>"
| "DIRECTIONS S = \<lparr>q = 0, r = 1\<rparr>"
| "DIRECTIONS SW = \<lparr>q = -1, r = 1\<rparr>"
| "DIRECTIONS NW = \<lparr>q = -1, r = 0\<rparr>"

text \<open>The property name of a direction, as it is spliced into status messages.\<close>

fun direction_name :: "direction \<Rightarrow> string" where
  "direction_name N = ''N''"
| "direction_name NE = ''NE''"
| "direction_name SE = ''SE''"
| "direction_name S = ''S''"
| "direction_name SW = ''SW''"
| "direction_name NW = ''NW''"

section \<open>Game state and actions\<close>

text \<open>
  The four \<^verbatim>\<open>useState\<close> cells of the component.  \<open>inventory\<close> is an object used as a
  dictionary from resource names to counts.
\<close>

record game =
  playerPos :: pos
  ap :: int
  inventory :: "string \<rightharpoonup> int"
  message :: string

definition init :: game where
  "init = \<lparr>playerPos = \<lparr>q = 0, r = 0\<rparr>, ap = 8, inventory = Map.empty,
            message = ''Welcome! Move around and gather resources.''\<rparr>"

text \<open>
  \<^verbatim>\<open>showMessage\<close> stores the message; the timer that blanks it three seconds later is a
  display matter and is left out.
\<close>

definition showMessage :: "string \<Rightarrow> game \<Rightarrow> game" where
  "showMessage msg s = s\<lparr>message := msg\<rparr>"

definition move :: "tile_table \<Rightarrow> direction \<Rightarrow> game \<Rightarrow> game" where
  "move tiles direction s =
     (if ap s < 1 then showMessage ''Not enough AP!'' s
      else
        let dir = DIRECTIONS direction;
            newPos = \<lparr>q = q (playerPos s) + q dir, r = r (playerPos s) + r dir\<rparr>;
            key = key_of newPos
        in (case lookup tiles key of
              Some t \<Rightarrow>
                showMessage (''Moved '' @ direction_name direction @ ''. AP: '' @ num_to_string (ap s - 1))
                  (s\<lparr>playerPos := newPos, ap := ap s - 1\<rparr>)
            | None \<Rightarrow> showMessage ''Cannot move there!'' s))"

text \<open>
  \<^verbatim>\<open>(newInventory[resource] || 0)\<close>: a missing entry reads as \<^verbatim>\<open>undefined\<close>, and both
  \<^verbatim>\<open>undefined\<close> and \<^verbatim>\<open>0\<close> are falsy.
\<close>

definition or_zero :: "int option \<Rightarrow> int" where
  "or_zero v = (case v of None \<Rightarrow> 0 | Some n \<Rightarrow> (if n = 0 then 0 else n))"

text \<open>
  JavaScript numbers are IEEE-754 doubles: an integer of magnitude up to \<open>2^53\<close> is held
  exactly, a larger one only if it is a multiple of its unit in the last place, and a sum
  is rounded to the nearest such number, ties going to the even significand.  Action
  points stay between 0 and 8 and coordinates stay on the map in every session, so their
  sums and differences are exact and are written with plain integer arithmetic.
  Inventory counts have no such bound: every \<^verbatim>\<open>gather\<close> adds to them.  Their sum is
  therefore modelled with the rounding.  (A sum of magnitude \<open>2^1024\<close> or more would be
  infinite; no session gets there, since no count ever exceeds \<open>2^55\<close>, as
  \<open>reachable_count_capped\<close> shows.)
\<close>

definition ulp :: "int \<Rightarrow> int" where
  "ulp a = 2 ^ nat (bitlen a - 53)"

definition round_double :: "int \<Rightarrow> int" where
  "round_double z =
     (let a = \<bar>z\<bar>; u = ulp a; m = a div u; rest = a mod u;
          m' = (if 2 * rest < u then m else if u < 2 * rest then m + 1
                else if even m then m else m + 1)
      in sgn z * (m' * u))"

text \<open>\<^verbatim>\<open>x + y\<close> on inventory counts.\<close>

definition js_add :: "int \<Rightarrow> int \<Rightarrow> int" where
  "js_add x y = round_double (x + y)"

text \<open>One round of the \<^verbatim>\<open>forEach\<close> callback in \<^verbatim>\<open>gather\<close>.\<close>

definition add_resource :: "string \<times> int \<Rightarrow> (string \<rightharpoonup> int) \<Rightarrow> (string \<rightharpoonup> int)" where
  "add_resource e newInventory =
     (case e of (resource, amount) \<Rightarrow>
        newInventory(resource \<mapsto> js_add (or_zero (newInventory resource)) amount))"

text \<open>\<^verbatim>\<open>Array.prototype.join\<close>.\<close>

fun join :: "string \<Rightarrow> string list \<Rightarrow> string" where
  "join sep [] = []"
| "join sep [x] = x"
| "join sep (x # y # ys) = x @ sep @ join sep (y # ys)"

text \<open>
  The only run-time fault the actions can raise: \<^verbatim>\<open>gather\<close> reads \<^verbatim>\<open>tile.type\<close> without
  checking that the lookup found a tile, which throws a \<^verbatim>\<open>TypeError\<close> on \<^verbatim>\<open>undefined\<close>.
  The exception leaves the handler before any state setter has run.
\<close>

datatype error = TypeError

definition gather :: "tile_table \<Rightarrow> game \<Rightarrow> error + game" where
  "gather tiles s =
     (if ap s < 2 then Inr (showMessage ''Not enough AP! (Need 2 AP)'' s)
      else
        let key = key_of (playerPos s)
        in (case lookup tiles key of
              None \<Rightarrow> Inl TypeError
            | Some tile \<Rightarrow>
                if type tile = ''home'' then Inr (showMessage ''Nothing to gather at home base!'' s)
                else
                  let rs = resources tile
                  in if length rs = 0 then Inr (showMessage ''Nothing to gather here!'' s)
                     else
                       let newInventory = fold add_resource rs (inventory s);
                           resourceStr =
                             join '', '' (map (\<lambda>(r, a). r @ '' +'' @ num_to_string a) rs)
                       in Inr (showMessage (''Gathered: '' @ resourceStr)
                                 (s\<lparr>inventory := newInventory, ap := ap s - 2\<rparr>))))"

definition alchemy :: "game \<Rightarrow> game" where
  "alchemy s =
     (if ap s < 2 then showMessage ''Not enough AP! (Need 2 AP)'' s
      else if q (playerPos s) \<noteq> 0 \<or> r (playerPos s) \<noteq> 0
        then showMessage ''Must be at home base to use alchemy!'' s
      else showMessage ''Alchemy performed! (Function not yet implemented)'' (s\<lparr>ap := ap s - 2\<rparr>))"

definition restoreAP :: "game \<Rightarrow> game" where
  "restoreAP s = showMessage ''AP restored to 8!'' (s\<lparr>ap := 8\<rparr>)"

section \<open>Sessions\<close>

text \<open>
  The buttons of the page call one handler at a time.  A session is a list of such calls;
  a handler that throws ends the run with the error.
\<close>

datatype action = Move direction | Gather | Alchemy | RestoreAP

fun step :: "tile_table \<Rightarrow> game \<Rightarrow> action \<Rightarrow> error + game" where
  "step tiles s (Move d) = Inr (move tiles d s)"
| "step tiles s Gather = gather tiles s"
| "step tiles s Alchemy = Inr (alchemy s)"
| "step tiles s RestoreAP = Inr (restoreAP s)"

fun run :: "tile_table \<Rightarrow> game \<Rightarrow> action list \<Rightarrow> error + game" where
  "run tiles s [] = Inr s"
| "run tiles s (a # as) =
     (case step tiles s a of Inl e \<Rightarrow> Inl e | Inr s' \<Rightarrow> run tiles s' as)"

text \<open>The states a session can reach from the initial state.\<close>

inductive reachable :: "tile_table \<Rightarrow> game \<Rightarrow> bool" for tiles :: tile_table where
  reachable_init: "reachable tiles init"
| reachable_step: "reachable tiles s \<Longrightarrow> step tiles s a = Inr s' \<Longrightarrow> reachable tiles s'"

text \<open>The part of the state the specification calls the player state.\<close>

definition player_state :: "game \<Rightarrow> pos \<times> int \<times> (string \<rightharpoonup> int)" where
  "player_state s = (playerPos s, ap s, inventory s)"

text \<open>The count an inventory shows for a resource; a missing entry counts as none.\<close>

definition count_of :: "(string \<rightharpoonup> int) \<Rightarrow> string \<Rightarrow> int" where
  "count_of m k = (case m k of None \<Rightarrow> 0 | Some n \<Rightarrow> n)"

text \<open>What one pass over a yield table adds for a resource.\<close>

definition yield_of :: "(string \<times> int) list \<Rightarrow> string \<Rightarrow> int" where
  "yield_of rs k = sum_list (map snd (filter (\<lambda>e. fst e = k) rs))"

text \<open>Hex distance of a coordinate from the origin, in axial coordinates.\<close>

definition hex_dist :: "pos \<Rightarrow> int" where
  "hex_dist p = max (max \<bar>q p\<bar> \<bar>r p\<bar>) \<bar>q p + r p\<bar>"

text \<open>All coordinates within a given hex distance of the origin.\<close>

definition hexagon :: "int \<Rightarrow> pos list" where
  "hexagon n = filter (\<lambda>p. hex_dist p \<le> n) (concat (map (\<lambda>a. map (\<lambda>b. \<lparr>q = a, r = b\<rparr>) [- n..n]) [- n..n]))"

text \<open>The coordinate one step from \<open>p\<close> in a direction, as \<^verbatim>\<open>move\<close> computes \<^verbatim>\<open>newPos\<close>.\<close>

definition neighbor :: "pos \<Rightarrow> direction \<Rightarrow> pos" where
  "neighbor p d = \<lparr>q = q p + q (DIRECTIONS d), r = r p + r (DIRECTIONS d)\<rparr>"

text \<open>
  The state the page holds once a handler has been called on \<open>s\<close>: what the handler set,
  or \<open>s\<close> itself when it threw.
\<close>

definition after :: "game \<Rightarrow> error + game \<Rightarrow> game" where
  "after s res = (case res of Inl e \<Rightarrow> s | Inr s' \<Rightarrow> s')"

text \<open>The integers a JavaScript number can hold.\<close>

definition representable :: "int \<Rightarrow> bool" where
  "representable z = (ulp \<bar>z\<bar> dvd z)"

text \<open>An inventory whose counts are non-negative numbers.\<close>

definition sound_inventory :: "(string \<rightharpoonup> int) \<Rightarrow> bool" where
  "sound_inventory m = (\<forall>k. 0 \<le> count_of m k \<and> representable (count_of m k))"

text \<open>Reading a decimal numeral back; used to show that rendering loses nothing.\<close>

definition digit_value :: "char \<Rightarrow> nat" where
  "digit_value c = of_char c - 48"

definition decimal_value :: "string \<Rightarrow> nat" where
  "decimal_value cs = foldl (\<lambda>a c. 10 * a + digit_value c) 0 cs"

section \<open>Sample tables, states and sessions\<close>

text \<open>The home tile of the authored table.\<close>

definition home_tile :: tile where
  "home_tile = \<lparr>type = ''home'', color = ''#8B4513'', icon = ''home'', resources = []\<rparr>"

text \<open>
  The authored table has no tile other than the home tile with an empty yield; this
  one-tile table has one, to exercise the third rejection of \<^verbatim>\<open>gather\<close>.
\<close>

definition barren_tile :: tile where
  "barren_tile = \<lparr>type = ''plain'', color = ''#F0E68C'', icon = ''plain'', resources = []\<rparr>"

definition barren :: tile_table where
  "barren = [(''0,0'', barren_tile)]"

text \<open>The tile north of home in the authored table.\<close>

definition plain_north :: tile where
  "plain_north = \<lparr>type = ''plain'', color = ''#F0E68C'', icon = ''plain'',
                   resources = [(''wood'', 3), (''herbs'', 1)]\<rparr>"

text \<open>Four steps north to the rim, then back and forth until no action point is left.\<close>

definition edge_walk :: "action list" where
  "edge_walk = [Move N, Move N, Move N, Move N, Move S, Move N, Move S, Move N]"

definition drained :: game where
  "drained = \<lparr>playerPos = \<lparr>q = 0, r = -4\<rparr>, ap = 0, inventory = Map.empty,
               message = ''Moved N. AP: 0''\<rparr>"

text \<open>The same position with action points to spare.\<close>

definition at_rim :: game where
  "at_rim = \<lparr>playerPos = \<lparr>q = 0, r = -4\<rparr>, ap = 3, inventory = Map.empty, message = []\<rparr>"

text \<open>A round trip and two there-and-backs: home again with one action point.\<close>

definition home_walk :: "action list" where
  "home_walk = [Move N, Move SE, Move SW, Move N, Move S, Move N, Move S]"

definition home_low :: game where
  "home_low = \<lparr>playerPos = \<lparr>q = 0, r = 0\<rparr>, ap = 1, inventory = Map.empty,
                message = ''Moved S. AP: 1''\<rparr>"

text \<open>One step north of home, before anything has been gathered.\<close>

definition grove :: game where
  "grove = \<lparr>playerPos = \<lparr>q = 0, r = -1\<rparr>, ap = 7, inventory = Map.empty,
             message = ''Moved N. AP: 7''\<rparr>"

text \<open>The mountain tile three steps north of home; it yields wheat only.\<close>

definition summit_tile :: tile where
  "summit_tile = \<lparr>type = ''mountain'', color = ''#CD853F'', icon = ''mountain'',
                   resources = [(''wheat'', 2)]\<rparr>"

text \<open>
  On that tile after \<open>n\<close> rounds of \<^verbatim>\<open>restoreAP\<close> and \<^verbatim>\<open>gather\<close>, as long as every
  round still added its wheat.
\<close>

definition harvest :: "nat \<Rightarrow> game" where
  "harvest n = \<lparr>playerPos = \<lparr>q = 0, r = -3\<rparr>, ap = 6, inventory = [''wheat'' \<mapsto> 2 * int n],
                 message = ''Gathered: wheat +2''\<rparr>"

text \<open>One step north of home, after one \<^verbatim>\<open>gather\<close> there.\<close>

definition laden :: game where
  "laden = \<lparr>playerPos = \<lparr>q = 0, r = -1\<rparr>, ap = 5, inventory = [''wood'' \<mapsto> 3, ''herbs'' \<mapsto> 1],
             message = ''Gathered: wood +3, herbs +1''\<rparr>"

text \<open>A state no session produces: the position is off the map.\<close>

definition stray :: game where
  "stray = \<lparr>playerPos = \<lparr>q = 9, r = 0\<rparr>, ap = 8, inventory = Map.empty, message = []\<rparr>"

section \<open>Keys identify coordinates\<close>

lemma below_ten_cases: "d < (10::nat) \<Longrightarrow> d \<in> {0, 1, 2, 3, 4, 5, 6, 7, 8, 9}"
  by auto

lemma digit_value_digit_char: "d < 10 \<Longrightarrow> digit_value (digit_char d) = d"
  using below_ten_cases [of d] by (auto simp: digit_value_def digit_char_def)

lemma digit_char_code: "d < 10 \<Longrightarrow> (48::nat) \<le> of_char (digit_char d)"
  using below_ten_cases [of d] by (auto simp: digit_char_def)

lemma digits_code: "c \<in> set (digits n) \<Longrightarrow> (48::nat) \<le> of_char c"
proof (induction n rule: digits.induct)
  case (1 n)
  show ?case
  proof (cases "n < 10")
    case True
    with "1.prems" show ?thesis by (simp add: digits.simps [of n] digit_char_code)
  next
    case False
    with "1.prems" have "c \<in> set (digits (n div 10)) \<or> c = digit_char (n mod 10)"
      by (auto simp: digits.simps [of n])
    then show ?thesis
    proof
      assume "c \<in> set (digits (n div 10))"
      with False "1.IH" show ?thesis by simp
    next
      assume "c = digit_char (n mod 10)"
      then show ?thesis by (simp add: digit_char_code)
    qed
  qed
qed

lemma decimal_value_digits: "decimal_value (digits n) = n"
proof (induction n rule: digits.induct)
  case (1 n)
  show ?case
  proof (cases "n < 10")
    case True
    then show ?thesis
      by (simp add: digits.simps [of n] decimal_value_def digit_value_digit_char)
  next
    case False
    then have "decimal_value (digits (n div 10)) = n div 10" using "1.IH" by simp
    then show ?thesis using False
      by (simp add: digits.simps [of n] decimal_value_def digit_value_digit_char)
  qed
qed

lemma digits_inject: "digits m = digits n \<Longrightarrow> m = n"
  by (metis decimal_value_digits)

lemma minus_notin_digits: "CHR ''-'' \<notin> set (digits n)"
proof
  assume "CHR ''-'' \<in> set (digits n)"
  then have "(48::nat) \<le> of_char CHR ''-''" by (rule digits_code)
  then show False by simp
qed

lemma comma_notin_digits: "CHR '','' \<notin> set (digits n)"
proof
  assume "CHR '','' \<in> set (digits n)"
  then have "(48::nat) \<le> of_char CHR '',''" by (rule digits_code)
  then show False by simp
qed

lemma digits_not_Nil: "digits n \<noteq> []"
  by (subst digits.simps) simp

lemma num_to_string_inject: "num_to_string i = num_to_string j \<Longrightarrow> i = j"
proof -
  assume eq: "num_to_string i = num_to_string j"
  have neg: "CHR ''-'' # xs \<noteq> digits n" for xs n
  proof
    assume "CHR ''-'' # xs = digits n"
    then have "CHR ''-'' \<in> set (digits n)" by (simp flip: \<open>CHR ''-'' # xs = digits n\<close>)
    with minus_notin_digits [of n] show False by blast
  qed
  show "i = j"
  proof (cases "i < 0")
    case True
    note i = this
    show ?thesis
    proof (cases "j < 0")
      case True
      with i eq have "digits (nat (- i)) = digits (nat (- j))" by (simp add: num_to_string_def)
      then have "nat (- i) = nat (- j)" by (rule digits_inject)
      with i True show ?thesis by simp
    next
      case False
      with i eq neg [of "digits (nat (- i))" "nat j"] show ?thesis by (simp add: num_to_string_def)
    qed
  next
    case False
    note i = this
    show ?thesis
    proof (cases "j < 0")
      case True
      with i eq neg [of "digits (nat (- j))" "nat i"] show ?thesis by (simp add: num_to_string_def)
    next
      case False
      with i eq have "digits (nat i) = digits (nat j)" by (simp add: num_to_string_def)
      then have "nat i = nat j" by (rule digits_inject)
      with i False show ?thesis by simp
    qed
  qed
qed

lemma comma_notin_num_to_string: "CHR '','' \<notin> set (num_to_string i)"
  using comma_notin_digits by (simp add: num_to_string_def)

lemma key_of_inject: "key_of a = key_of b \<Longrightarrow> a = b"
proof -
  assume "key_of a = key_of b"
  then have "num_to_string (q a) @ CHR '','' # num_to_string (r a)
           = num_to_string (q b) @ CHR '','' # num_to_string (r b)"
    by (simp add: key_of_def)
  then have "num_to_string (q a) = num_to_string (q b) \<and> num_to_string (r a) = num_to_string (r b)"
    using comma_notin_num_to_string by (simp add: append_Cons_eq_iff)
  then have "q a = q b \<and> r a = r b" by (auto dest: num_to_string_inject)
  then show "a = b" by simp
qed

section \<open>Facts about the authored table\<close>

lemmas eval_key = key_of_def num_to_string_def digits.simps digit_char_def

lemma key_of_origin: "key_of \<lparr>q = 0, r = 0\<rparr> = ''0,0''"
  by (simp add: eval_key)

lemma TILE_DATA_origin: "lookup TILE_DATA (key_of \<lparr>q = 0, r = 0\<rparr>) = Some home_tile"
  by (simp add: lookup_def eval_key TILE_DATA_def home_tile_def)

lemma barren_origin: "lookup barren (key_of \<lparr>q = 0, r = 0\<rparr>) = Some barren_tile"
  by (simp add: lookup_def eval_key barren_def)

lemma rim_north_absent: "lookup TILE_DATA (key_of (neighbor \<lparr>q = 0, r = -4\<rparr> N)) = None"
  by (simp add: neighbor_def lookup_def eval_key TILE_DATA_def)

lemma rim_present: "lookup TILE_DATA (key_of \<lparr>q = 0, r = -4\<rparr>) \<noteq> None"
  by (simp add: lookup_def eval_key TILE_DATA_def)

lemma stray_absent: "lookup TILE_DATA (key_of \<lparr>q = 9, r = 0\<rparr>) = None"
  by (simp add: lookup_def eval_key TILE_DATA_def)

lemma home_only_at_origin_key:
  "\<forall>e \<in> set TILE_DATA. type (snd e) = ''home'' \<longrightarrow> fst e = ''0,0''"
  by (simp add: TILE_DATA_def)

lemma run_edge_walk: "run TILE_DATA init edge_walk = Inr drained"
  by (simp add: edge_walk_def drained_def init_def move_def showMessage_def lookup_def
      eval_key TILE_DATA_def)

lemma run_home_walk: "run TILE_DATA init home_walk = Inr home_low"
  by (simp add: home_walk_def home_low_def init_def move_def showMessage_def lookup_def
      eval_key TILE_DATA_def)

section \<open>The position stays on the map\<close>

lemma playerPos_move:
  "playerPos (move tiles d s) = playerPos s \<or>
   lookup tiles (key_of (playerPos (move tiles d s))) \<noteq> None"
  by (auto simp: move_def showMessage_def Let_def split: option.splits)

lemma playerPos_gather: "gather tiles s = Inr s' \<Longrightarrow> playerPos s' = playerPos s"
  by (auto simp: gather_def showMessage_def Let_def split: option.splits if_splits)

lemma playerPos_alchemy: "playerPos (alchemy s) = playerPos s"
  by (simp add: alchemy_def showMessage_def)

lemma playerPos_restoreAP: "playerPos (restoreAP s) = playerPos s"
  by (simp add: restoreAP_def showMessage_def)

lemma position_on_map:
  assumes "reachable tiles s" and "lookup tiles (key_of \<lparr>q = 0, r = 0\<rparr>) \<noteq> None"
  shows "lookup tiles (key_of (playerPos s)) \<noteq> None"
  using assms
proof (induction rule: reachable.induct)
  case reachable_init
  then show ?case by (simp add: init_def)
next
  case (reachable_step s a s')
  then have IH: "lookup tiles (key_of (playerPos s)) \<noteq> None" by simp
  show ?case
  proof (cases a)
    case (Move d)
    with reachable_step.hyps(2) have "s' = move tiles d s" by simp
    with IH playerPos_move [of tiles d s] show ?thesis by auto
  next
    case Gather
    with reachable_step.hyps(2) have "playerPos s' = playerPos s"
      by (simp add: playerPos_gather)
    with IH show ?thesis by simp
  next
    case Alchemy
    with reachable_step.hyps(2) IH show ?thesis by (auto simp: playerPos_alchemy)
  next
    case RestoreAP
    with reachable_step.hyps(2) IH show ?thesis by (auto simp: playerPos_restoreAP)
  qed
qed

lemma gather_returns:
  "lookup tiles (key_of (playerPos s)) \<noteq> None \<Longrightarrow> \<exists>s'. gather tiles s = Inr s'"
  by (auto simp: gather_def Let_def)

lemma reachable_run:
  "reachable tiles s \<Longrightarrow> run tiles s as = Inr s' \<Longrightarrow> reachable tiles s'"
proof (induction as arbitrary: s)
  case Nil
  then show ?case by simp
next
  case (Cons a as)
  from Cons.prems(2) obtain s1 where s1: "step tiles s a = Inr s1" and rest: "run tiles s1 as = Inr s'"
    by (auto split: sum.splits)
  from Cons.prems(1) s1 have "reachable tiles s1" by (rule reachable_step)
  then show ?case using rest by (rule Cons.IH)
qed

section \<open>The authored map\<close>

lemma length_TILE_DATA: "length TILE_DATA = 61"
  by (simp add: TILE_DATA_def)

lemma distinct_keys: "distinct (map fst TILE_DATA)"
  by (simp add: TILE_DATA_def)

lemma keys_hexagon: "fst ` set TILE_DATA = key_of ` set (hexagon 4)"
proof -
  have "set (map fst TILE_DATA) = set (map key_of (hexagon 4))" by code_simp
  then show ?thesis by (simp only: set_map)
qed

lemma distinct_hexagon: "distinct (hexagon 4)"
  by code_simp

lemma length_hexagon: "length (hexagon 4) = 61"
  by code_simp

lemma ring_sizes:
  "map (\<lambda>k. length (filter (\<lambda>p. hex_dist p = k) (hexagon 4))) [0, 1, 2, 3, 4] = [1, 6, 12, 18, 24]"
  by code_simp

lemma home_entries: "filter (\<lambda>e. type (snd e) = ''home'') TILE_DATA = [(''0,0'', home_tile)]"
  by (simp add: TILE_DATA_def home_tile_def)

lemma hexagon_iff: "p \<in> set (hexagon n) \<longleftrightarrow> hex_dist p \<le> n"
proof
  assume "p \<in> set (hexagon n)"
  then show "hex_dist p \<le> n" by (simp add: hexagon_def)
next
  assume d: "hex_dist p \<le> n"
  then have "- n \<le> q p \<and> q p \<le> n \<and> - n \<le> r p \<and> r p \<le> n"
    by (auto simp: hex_dist_def)
  moreover have "p = \<lparr>q = q p, r = r p\<rparr>" by simp
  ultimately have "\<exists>a \<in> {- n..n}. \<exists>b \<in> {- n..n}. p = \<lparr>q = a, r = b\<rparr>"
    by (metis atLeastAtMost_iff)
  with d show "p \<in> set (hexagon n)" by (auto simp: hexagon_def)
qed

lemma present_iff: "lookup TILE_DATA (key_of p) \<noteq> None \<longleftrightarrow> hex_dist p \<le> 4"
proof -
  have "lookup TILE_DATA (key_of p) \<noteq> None \<longleftrightarrow> key_of p \<in> fst ` set TILE_DATA"
    by (simp only: lookup_def map_of_eq_None_iff not_not)
  also have "\<dots> \<longleftrightarrow> key_of p \<in> key_of ` set (hexagon 4)"
    by (simp only: keys_hexagon)
  also have "\<dots> \<longleftrightarrow> p \<in> set (hexagon 4)"
    by (auto dest: key_of_inject)
  also have "\<dots> \<longleftrightarrow> hex_dist p \<le> 4" by (rule hexagon_iff)
  finally show ?thesis .
qed

lemma present_set: "{p. lookup TILE_DATA (key_of p) \<noteq> None} = set (hexagon 4)"
  by (rule set_eqI) (simp only: mem_Collect_eq present_iff hexagon_iff)

lemma card_present: "card {p. lookup TILE_DATA (key_of p) \<noteq> None} = 61"
  using distinct_card [OF distinct_hexagon] by (simp only: present_set length_hexagon)

lemma card_ring:
  "card {p. lookup TILE_DATA (key_of p) \<noteq> None \<and> hex_dist p = k}
     = length (filter (\<lambda>p. hex_dist p = k) (hexagon 4))"
proof -
  have "{p. lookup TILE_DATA (key_of p) \<noteq> None \<and> hex_dist p = k}
      = set (filter (\<lambda>p. hex_dist p = k) (hexagon 4))"
    by (rule set_eqI) (simp only: mem_Collect_eq present_iff set_filter hexagon_iff)
  moreover have "distinct (filter (\<lambda>p. hex_dist p = k) (hexagon 4))"
    using distinct_hexagon by (rule distinct_filter)
  ultimately show ?thesis by (simp only: distinct_card)
qed

lemma card_keys: "card (dom (lookup TILE_DATA)) = 61"
proof -
  have "lookup TILE_DATA = map_of TILE_DATA" by (rule ext) (simp only: lookup_def)
  then have "dom (lookup TILE_DATA) = set (map fst TILE_DATA)"
    by (simp only: dom_map_of_conv_image_fst set_map)
  then show ?thesis using distinct_card [OF distinct_keys] by (simp add: length_TILE_DATA)
qed

text \<open>
  Claim C3, as amended.  The authored map is a fixed table of exactly 61 tiles under 61
  distinct keys.  A coordinate has a tile exactly when its hex distance from (0,0) is at
  most 4: the home tile at (0,0) and four concentric rings around it, of 6, 12, 18 and 24
  tiles at distances 1 to 4.  Exactly one entry has type \<^verbatim>\<open>'home'\<close>; it is stored under
  the key of (0,0), and its yield table is empty.
\<close>

theorem authored_map:
  "length TILE_DATA = 61 \<and> distinct (map fst TILE_DATA)
   \<and> card {p. lookup TILE_DATA (key_of p) \<noteq> None} = 61
   \<and> (\<forall>p. (lookup TILE_DATA (key_of p) \<noteq> None) = (hex_dist p \<le> 4))
   \<and> card {p. lookup TILE_DATA (key_of p) \<noteq> None \<and> hex_dist p = 0} = 1
   \<and> card {p. lookup TILE_DATA (key_of p) \<noteq> None \<and> hex_dist p = 1} = 6
   \<and> card {p. lookup TILE_DATA (key_of p) \<noteq> None \<and> hex_dist p = 2} = 12
   \<and> card {p. lookup TILE_DATA (key_of p) \<noteq> None \<and> hex_dist p = 3} = 18
   \<and> card {p. lookup TILE_DATA (key_of p) \<noteq> None \<and> hex_dist p = 4} = 24
   \<and> filter (\<lambda>e. type (snd e) = ''home'') TILE_DATA = [(''0,0'', home_tile)]
   \<and> lookup TILE_DATA (key_of \<lparr>q = 0, r = 0\<rparr>) = Some home_tile
   \<and> resources home_tile = []"
proof -
  have rings: "card {p. lookup TILE_DATA (key_of p) \<noteq> None \<and> hex_dist p = 0} = 1
   \<and> card {p. lookup TILE_DATA (key_of p) \<noteq> None \<and> hex_dist p = 1} = 6
   \<and> card {p. lookup TILE_DATA (key_of p) \<noteq> None \<and> hex_dist p = 2} = 12
   \<and> card {p. lookup TILE_DATA (key_of p) \<noteq> None \<and> hex_dist p = 3} = 18
   \<and> card {p. lookup TILE_DATA (key_of p) \<noteq> None \<and> hex_dist p = 4} = 24"
    unfolding card_ring using ring_sizes by simp
  have "resources home_tile = []" by (simp add: home_tile_def)
  with rings length_TILE_DATA distinct_keys card_present present_iff home_entries TILE_DATA_origin
  show ?thesis by blast
qed

text \<open>The table does not have 52 entries.\<close>

theorem authored_map_counterexample:
  "card (dom (lookup TILE_DATA)) = 61 \<and> card (dom (lookup TILE_DATA)) \<noteq> 52
   \<and> length TILE_DATA \<noteq> 52"
  by (simp add: card_keys length_TILE_DATA)

section \<open>Movement\<close>

text \<open>
  Claim C1, as amended.  Whenever the tile one step away in direction \<open>d\<close> is absent from
  the tile table, \<^verbatim>\<open>move(d)\<close> leaves position, action points and inventory as they were.
  The rejection it reports is ``Cannot move there!'' (the specification's
  \<open>InvalidDestination\<close>) when at least one action point is left; with none left the
  action-point check, which comes first, reports ``Not enough AP!'' (\<open>InsufficientAP\<close>)
  instead.
\<close>

theorem move_invalid_destination:
  assumes "lookup tiles (key_of (neighbor (playerPos s) d)) = None"
  shows "playerPos (move tiles d s) = playerPos s \<and> ap (move tiles d s) = ap s
       \<and> inventory (move tiles d s) = inventory s
       \<and> message (move tiles d s) =
           (if ap s < 1 then ''Not enough AP!'' else ''Cannot move there!'')"
  using assms by (simp add: move_def neighbor_def showMessage_def Let_def)

theorem move_invalid_destination_witness:
  "lookup TILE_DATA (key_of (neighbor (playerPos at_rim) N)) = None
   \<and> playerPos (move TILE_DATA N at_rim) = \<lparr>q = 0, r = -4\<rparr>
   \<and> ap (move TILE_DATA N at_rim) = 3
   \<and> message (move TILE_DATA N at_rim) = ''Cannot move there!''"
proof -
  have a: "lookup TILE_DATA (key_of (neighbor (playerPos at_rim) N)) = None"
    using rim_north_absent by (simp add: at_rim_def)
  show ?thesis using a move_invalid_destination [OF a] by (simp add: at_rim_def)
qed

text \<open>
  The claim as written fails for a player without action points: the session \<open>edge_walk\<close>
  ends on the rim tile (0,-4) with no action point left, the tile to the north is absent,
  and \<^verbatim>\<open>move('N')\<close> reports ``Not enough AP!'', not ``Cannot move there!''.
\<close>

theorem move_invalid_destination_counterexample:
  "run TILE_DATA init edge_walk = Inr drained
   \<and> lookup TILE_DATA (key_of (playerPos drained)) \<noteq> None
   \<and> lookup TILE_DATA (key_of (neighbor (playerPos drained) N)) = None
   \<and> message (move TILE_DATA N drained) = ''Not enough AP!''
   \<and> message (move TILE_DATA N drained) \<noteq> ''Cannot move there!''"
  using run_edge_walk rim_north_absent rim_present
  by (simp add: drained_def move_def showMessage_def)

text \<open>
  Claim C6.  When \<^verbatim>\<open>move(d)\<close> succeeds, that is, at least one action point is left and
  the tile one step away in direction \<open>d\<close> exists, the action points drop by exactly 1, the
  position changes by exactly the offset of \<open>d\<close>, and the inventory is untouched.
\<close>

theorem move_success:
  assumes "1 \<le> ap s" and "lookup tiles (key_of (neighbor (playerPos s) d)) \<noteq> None"
  shows "ap (move tiles d s) = ap s - 1
       \<and> q (playerPos (move tiles d s)) = q (playerPos s) + q (DIRECTIONS d)
       \<and> r (playerPos (move tiles d s)) = r (playerPos s) + r (DIRECTIONS d)
       \<and> inventory (move tiles d s) = inventory s"
  using assms by (auto simp: move_def neighbor_def showMessage_def Let_def)

theorem move_success_witness:
  "1 \<le> ap init \<and> lookup TILE_DATA (key_of (neighbor (playerPos init) N)) \<noteq> None
   \<and> ap (move TILE_DATA N init) = 7
   \<and> q (playerPos (move TILE_DATA N init)) = 0
   \<and> r (playerPos (move TILE_DATA N init)) = -1
   \<and> inventory (move TILE_DATA N init) = Map.empty"
proof -
  have a: "1 \<le> ap init" by (simp add: init_def)
  have b: "lookup TILE_DATA (key_of (neighbor (playerPos init) N)) \<noteq> None"
    by (simp add: init_def neighbor_def lookup_def eval_key TILE_DATA_def)
  show ?thesis using a b move_success [OF a b] by (simp add: init_def)
qed

section \<open>Gathering\<close>

text \<open>
  Claim C2, as amended.  On the home tile \<^verbatim>\<open>gather()\<close> is always rejected and changes
  nothing but the message: with ``Nothing to gather at home base!'' (\<open>InvalidLocation\<close>)
  when at least two action points are left, and with ``Not enough AP! (Need 2 AP)''
  (\<open>InsufficientAP\<close>) otherwise, since the action-point check comes first.  Likewise on a
  tile that is not the home tile and has an empty yield table: ``Nothing to gather here!''
  (\<open>NothingToGather\<close>) with at least two action points, the action-point rejection
  otherwise.
\<close>

theorem gather_rejections:
  assumes "lookup tiles (key_of (playerPos s)) = Some t"
  shows "(type t = ''home'' \<longrightarrow>
            gather tiles s = Inr (showMessage (if ap s < 2 then ''Not enough AP! (Need 2 AP)''
                                               else ''Nothing to gather at home base!'') s))
       \<and> (type t \<noteq> ''home'' \<and> resources t = [] \<longrightarrow>
            gather tiles s = Inr (showMessage (if ap s < 2 then ''Not enough AP! (Need 2 AP)''
                                               else ''Nothing to gather here!'') s))"
  using assms by (simp add: gather_def Let_def)

theorem gather_rejections_witness:
  "lookup TILE_DATA (key_of (playerPos init)) = Some home_tile \<and> type home_tile = ''home''
   \<and> gather TILE_DATA init = Inr (showMessage ''Nothing to gather at home base!'' init)
   \<and> lookup barren (key_of (playerPos init)) = Some barren_tile
   \<and> type barren_tile \<noteq> ''home'' \<and> resources barren_tile = []
   \<and> gather barren init = Inr (showMessage ''Nothing to gather here!'' init)"
proof -
  have a: "lookup TILE_DATA (key_of (playerPos init)) = Some home_tile"
    using TILE_DATA_origin by (simp add: init_def)
  have b: "lookup barren (key_of (playerPos init)) = Some barren_tile"
    using barren_origin by (simp add: init_def)
  have c: "type home_tile = ''home''" by (simp add: home_tile_def)
  have d: "type barren_tile \<noteq> ''home'' \<and> resources barren_tile = []"
    by (simp add: barren_tile_def)
  have e: "\<not> ap init < 2" by (simp add: init_def)
  from gather_rejections [OF a] c e
  have "gather TILE_DATA init = Inr (showMessage ''Nothing to gather at home base!'' init)"
    by simp
  moreover from gather_rejections [OF b] d e
  have "gather barren init = Inr (showMessage ''Nothing to gather here!'' init)" by simp
  ultimately show ?thesis using a b c d by simp
qed

text \<open>
  The claim as written fails below two action points: the session \<open>home_walk\<close> ends on the
  home tile with one action point, and there \<^verbatim>\<open>gather()\<close> reports the action-point
  rejection, not ``Nothing to gather at home base!''.
\<close>

theorem gather_rejections_counterexample:
  "run TILE_DATA init home_walk = Inr home_low
   \<and> lookup TILE_DATA (key_of (playerPos home_low)) = Some home_tile
   \<and> type home_tile = ''home'' \<and> ap home_low = 1
   \<and> gather TILE_DATA home_low = Inr (showMessage ''Not enough AP! (Need 2 AP)'' home_low)
   \<and> message (after home_low (gather TILE_DATA home_low)) \<noteq> ''Nothing to gather at home base!''"
  using run_home_walk TILE_DATA_origin
  by (simp add: home_low_def home_tile_def gather_def after_def showMessage_def)

text \<open>
  Claim C9.  In every state a session can reach, the player's position is a key of the
  tile table, so the unchecked lookup in \<^verbatim>\<open>gather()\<close> finds a tile and the handler
  returns instead of throwing.
\<close>

theorem gather_lookup_defined:
  assumes "reachable TILE_DATA s"
  shows "lookup TILE_DATA (key_of (playerPos s)) \<noteq> None
       \<and> gather TILE_DATA s \<noteq> Inl TypeError
       \<and> (\<exists>s'. gather TILE_DATA s = Inr s')"
proof -
  have "lookup TILE_DATA (key_of \<lparr>q = 0, r = 0\<rparr>) \<noteq> None" by (simp add: TILE_DATA_origin)
  with assms have on: "lookup TILE_DATA (key_of (playerPos s)) \<noteq> None"
    by (rule position_on_map)
  from gather_returns [OF on] on show ?thesis by auto
qed

theorem gather_lookup_defined_witness:
  "reachable TILE_DATA drained
   \<and> lookup TILE_DATA (key_of (playerPos drained)) \<noteq> None
   \<and> gather TILE_DATA drained = Inr (showMessage ''Not enough AP! (Need 2 AP)'' drained)"
proof -
  have a: "reachable TILE_DATA drained"
    using reachable_init run_edge_walk by (rule reachable_run)
  have "gather TILE_DATA drained = Inr (showMessage ''Not enough AP! (Need 2 AP)'' drained)"
    by (simp add: gather_def drained_def)
  with a gather_lookup_defined [OF a] show ?thesis by simp
qed

section \<open>The two tests for being at home\<close>

text \<open>
  Claim C10.  For every coordinate whose key is in the authored table, the tile stored
  there has type \<^verbatim>\<open>'home'\<close> (the test \<^verbatim>\<open>gather\<close> uses) exactly when both coordinates
  are zero (the test \<^verbatim>\<open>alchemy\<close> uses).
\<close>

theorem home_tests_agree:
  assumes "lookup TILE_DATA (key_of p) = Some t"
  shows "(type t = ''home'') = (q p = 0 \<and> r p = 0)"
proof
  assume "type t = ''home''"
  moreover from assms have "(key_of p, t) \<in> set TILE_DATA"
    by (simp add: lookup_def map_of_SomeD)
  ultimately have "key_of p = ''0,0''" using home_only_at_origin_key by fastforce
  then have "key_of p = key_of \<lparr>q = 0, r = 0\<rparr>" by (simp add: key_of_origin)
  then have "p = \<lparr>q = 0, r = 0\<rparr>" by (rule key_of_inject)
  then show "q p = 0 \<and> r p = 0" by simp
next
  assume "q p = 0 \<and> r p = 0"
  then have "p = \<lparr>q = 0, r = 0\<rparr>" by simp
  with assms TILE_DATA_origin have "t = home_tile" by simp
  then show "type t = ''home''" by (simp add: home_tile_def)
qed

theorem home_tests_agree_witness:
  "lookup TILE_DATA (key_of \<lparr>q = 0, r = 0\<rparr>) = Some home_tile
   \<and> (type home_tile = ''home'') = (q \<lparr>q = 0, r = 0\<rparr> = 0 \<and> r \<lparr>q = 0, r = 0\<rparr> = 0)
   \<and> lookup TILE_DATA (key_of \<lparr>q = 0, r = -1\<rparr>) = Some plain_north
   \<and> (type plain_north = ''home'') = (q \<lparr>q = 0, r = -1\<rparr> = 0 \<and> r \<lparr>q = 0, r = -1\<rparr> = 0)"
proof -
  have a: "lookup TILE_DATA (key_of \<lparr>q = 0, r = -1\<rparr>) = Some plain_north"
    by (simp add: lookup_def eval_key TILE_DATA_def plain_north_def)
  from home_tests_agree [OF TILE_DATA_origin] home_tests_agree [OF a] TILE_DATA_origin a
  show ?thesis by simp
qed

section \<open>All-or-nothing transitions and the action-point range\<close>

text \<open>
  Claim C5.  When the preconditions of \<^verbatim>\<open>move\<close>, \<^verbatim>\<open>gather\<close> or \<^verbatim>\<open>alchemy\<close> (the home
  action) fail, the handler returns and position, action points and inventory are all
  exactly as before.  The preconditions are: for \<^verbatim>\<open>move\<close>, an action point and an existing
  target tile; for \<^verbatim>\<open>gather\<close>, two action points and a current tile that is not the home
  tile and has a non-empty yield; for \<^verbatim>\<open>alchemy\<close>, two action points and position (0,0).
  Off the map, where \<^verbatim>\<open>gather\<close> throws, the state is unchanged as well.
\<close>

theorem failed_preconditions_no_mutation:
  "(ap s < 1 \<or> lookup tiles (key_of (neighbor (playerPos s) d)) = None \<longrightarrow>
      player_state (move tiles d s) = player_state s)
   \<and> (ap s < 2 \<or> (\<exists>t. lookup tiles (key_of (playerPos s)) = Some t
                         \<and> (type t = ''home'' \<or> resources t = [])) \<longrightarrow>
      (\<exists>s'. gather tiles s = Inr s' \<and> player_state s' = player_state s))
   \<and> (2 \<le> ap s \<and> lookup tiles (key_of (playerPos s)) = None \<longrightarrow>
      gather tiles s = Inl TypeError \<and> after s (gather tiles s) = s)
   \<and> (ap s < 2 \<or> q (playerPos s) \<noteq> 0 \<or> r (playerPos s) \<noteq> 0 \<longrightarrow>
      player_state (alchemy s) = player_state s)"
proof -
  have m: "ap s < 1 \<or> lookup tiles (key_of (neighbor (playerPos s) d)) = None \<Longrightarrow>
      player_state (move tiles d s) = player_state s"
    by (auto simp: move_def neighbor_def showMessage_def player_state_def Let_def)
  have g: "ap s < 2 \<or> (\<exists>t. lookup tiles (key_of (playerPos s)) = Some t
                         \<and> (type t = ''home'' \<or> resources t = [])) \<Longrightarrow>
      (\<exists>s'. gather tiles s = Inr s' \<and> player_state s' = player_state s)"
    by (auto simp: gather_def showMessage_def player_state_def Let_def)
  have c: "2 \<le> ap s \<and> lookup tiles (key_of (playerPos s)) = None \<Longrightarrow>
      gather tiles s = Inl TypeError \<and> after s (gather tiles s) = s"
    by (simp add: gather_def after_def Let_def)
  have a: "ap s < 2 \<or> q (playerPos s) \<noteq> 0 \<or> r (playerPos s) \<noteq> 0 \<Longrightarrow>
      player_state (alchemy s) = player_state s"
    by (auto simp: alchemy_def showMessage_def player_state_def)
  from m g c a show ?thesis by blast
qed

theorem failed_preconditions_no_mutation_witness:
  "ap drained < 1 \<and> lookup TILE_DATA (key_of (neighbor (playerPos drained) N)) = None
   \<and> player_state (move TILE_DATA N drained) = player_state drained
   \<and> ap drained < 2
   \<and> (\<exists>s'. gather TILE_DATA drained = Inr s' \<and> player_state s' = player_state drained)
   \<and> r (playerPos drained) \<noteq> 0
   \<and> player_state (alchemy drained) = player_state drained
   \<and> lookup TILE_DATA (key_of (playerPos init)) = Some home_tile \<and> type home_tile = ''home''
   \<and> (\<exists>s'. gather TILE_DATA init = Inr s' \<and> player_state s' = player_state init)
   \<and> 2 \<le> ap stray \<and> lookup TILE_DATA (key_of (playerPos stray)) = None
   \<and> gather TILE_DATA stray = Inl TypeError \<and> after stray (gather TILE_DATA stray) = stray"
proof -
  have a: "ap drained < 1 \<and> ap drained < 2 \<and> r (playerPos drained) \<noteq> 0"
    by (simp add: drained_def)
  have b: "lookup TILE_DATA (key_of (neighbor (playerPos drained) N)) = None"
    using rim_north_absent by (simp add: drained_def)
  have c: "lookup TILE_DATA (key_of (playerPos init)) = Some home_tile \<and> type home_tile = ''home''"
    using TILE_DATA_origin by (simp add: init_def home_tile_def)
  have d: "2 \<le> ap stray \<and> lookup TILE_DATA (key_of (playerPos stray)) = None"
    using stray_absent by (simp add: stray_def)
  from failed_preconditions_no_mutation [of drained TILE_DATA N] a b
  have 1: "player_state (move TILE_DATA N drained) = player_state drained
     \<and> (\<exists>s'. gather TILE_DATA drained = Inr s' \<and> player_state s' = player_state drained)
     \<and> player_state (alchemy drained) = player_state drained"
    by simp
  from failed_preconditions_no_mutation [of init TILE_DATA N] c
  have 2: "\<exists>s'. gather TILE_DATA init = Inr s' \<and> player_state s' = player_state init"
    by blast
  from failed_preconditions_no_mutation [of stray TILE_DATA N] d
  have 3: "gather TILE_DATA stray = Inl TypeError \<and> after stray (gather TILE_DATA stray) = stray"
    by blast
  from a b c d 1 2 3 show ?thesis by blast
qed

text \<open>
  Claim C4.  If the action points lie between 0 and 8 before a call of \<^verbatim>\<open>move\<close>,
  \<^verbatim>\<open>gather\<close>, \<^verbatim>\<open>alchemy\<close> or \<^verbatim>\<open>restoreAP\<close>, they lie between 0 and 8 after it, whether
  the call took effect, was rejected, or threw; and every state reachable from the
  initial state, where they are 8, has its action points in that range.
\<close>

theorem ap_bounds:
  "(0 \<le> ap s \<and> ap s \<le> 8 \<longrightarrow>
      0 \<le> ap (after s (step tiles s a)) \<and> ap (after s (step tiles s a)) \<le> 8)
   \<and> (reachable tiles s \<longrightarrow> 0 \<le> ap s \<and> ap s \<le> 8)"
proof -
  have one: "0 \<le> ap (after s (step tiles s a)) \<and> ap (after s (step tiles s a)) \<le> 8"
    if "0 \<le> ap s \<and> ap s \<le> 8" for s a
  proof (cases a)
    case (Move d)
    with that show ?thesis
      by (auto simp: after_def move_def showMessage_def Let_def split: option.splits)
  next
    case Gather
    with that show ?thesis
      by (auto simp: after_def gather_def showMessage_def Let_def split: option.splits)
  next
    case Alchemy
    with that show ?thesis by (auto simp: after_def alchemy_def showMessage_def)
  next
    case RestoreAP
    then show ?thesis by (simp add: after_def restoreAP_def showMessage_def)
  qed
  have all: "0 \<le> ap s \<and> ap s \<le> 8" if "reachable tiles s"
    using that
  proof (induction rule: reachable.induct)
    case reachable_init
    show ?case by (simp add: init_def)
  next
    case (reachable_step s a s')
    from one [OF reachable_step.IH, of a] reachable_step.hyps(2)
    show ?case by (simp add: after_def)
  qed
  from one all show ?thesis by blast
qed

theorem ap_bounds_witness:
  "0 \<le> ap home_low \<and> ap home_low \<le> 8 \<and> reachable TILE_DATA home_low
   \<and> after home_low (step TILE_DATA home_low (Move N)) = move TILE_DATA N home_low
   \<and> ap (move TILE_DATA N home_low) = 0
   \<and> 0 \<le> ap (after home_low (step TILE_DATA home_low (Move N)))
   \<and> ap (after home_low (step TILE_DATA home_low (Move N))) \<le> 8"
proof -
  have a: "0 \<le> ap home_low \<and> ap home_low \<le> 8" by (simp add: home_low_def)
  have b: "reachable TILE_DATA home_low"
    using reachable_init run_home_walk by (rule reachable_run)
  have c: "after home_low (step TILE_DATA home_low (Move N)) = move TILE_DATA N home_low"
    by (simp add: after_def)
  have d: "ap (move TILE_DATA N home_low) = 0"
    by (simp add: home_low_def move_def showMessage_def lookup_def eval_key TILE_DATA_def)
  from ap_bounds [of home_low TILE_DATA "Move N"] a b c d show ?thesis by simp
qed

section \<open>Sums of inventory counts\<close>

lemma ulp_pos: "0 < ulp a"
  by (simp add: ulp_def)

lemma representable_exact: "representable z \<Longrightarrow> round_double z = z"
proof -
  assume "representable z"
  then have d: "ulp \<bar>z\<bar> dvd \<bar>z\<bar>" by (simp add: representable_def)
  then have "\<bar>z\<bar> mod ulp \<bar>z\<bar> = 0" by simp
  moreover from d have "\<bar>z\<bar> div ulp \<bar>z\<bar> * ulp \<bar>z\<bar> = \<bar>z\<bar>" by simp
  ultimately have "round_double z = sgn z * \<bar>z\<bar>"
    using ulp_pos [of "\<bar>z\<bar>"] by (simp add: round_double_def Let_def)
  then show ?thesis by (simp add: mult_sgn_abs)
qed

lemma ulp_small: "\<bar>a\<bar> < 2 ^ 53 \<Longrightarrow> ulp a = 1"
proof -
  assume "\<bar>a\<bar> < 2 ^ 53"
  then have "a < 2 ^ nat 53" by simp
  then have "bitlen a \<le> 53" by (simp add: bitlen_le_iff_power)
  then show ?thesis by (simp add: ulp_def)
qed

lemma bitlen_between:
  assumes "2 ^ n \<le> x" and "x < 2 ^ Suc n"
  shows "bitlen x = int n + 1"
proof -
  from assms have "0 \<le> x - 2 ^ n" and "x - 2 ^ n < 2 ^ n" by simp_all
  then have "bitlen (2 ^ n + (x - 2 ^ n)) = int n + 1"
    using bitlen_twopow_add_eq [where w = n and b = "x - 2 ^ n"] by simp
  then show ?thesis by simp
qed

lemma representable_safe: "\<bar>z\<bar> \<le> 2 ^ 53 \<Longrightarrow> representable z"
proof (cases "\<bar>z\<bar> = 2 ^ 53")
  case True
  have "bitlen (2 ^ 53) = int 53 + 1" by (rule bitlen_between) simp_all
  then have "ulp (2 ^ 53) = 2" by (simp add: ulp_def)
  with True have "ulp \<bar>z\<bar> dvd \<bar>z\<bar>" by simp
  then show ?thesis by (simp add: representable_def)
next
  case False
  assume "\<bar>z\<bar> \<le> 2 ^ 53"
  with False have "\<bar>\<bar>z\<bar>\<bar> < 2 ^ 53" by simp
  then have "ulp \<bar>z\<bar> = 1" by (rule ulp_small)
  then show ?thesis by (simp add: representable_def)
qed

lemma round_double_safe: "\<bar>z\<bar> \<le> 2 ^ 53 \<Longrightarrow> round_double z = z"
  by (rule representable_exact) (rule representable_safe)


lemma multiple_le_floor:
  fixes u d z :: int
  assumes "0 < u" and "u dvd d" and "d \<le> z"
  shows "d \<le> z div u * u"
proof -
  from assms(2) obtain k where k: "d = u * k" by (rule dvdE)
  from assms(3) assms(1) have "d div u \<le> z div u" by (rule zdiv_mono1)
  with assms(1) k have "k \<le> z div u" by simp
  with assms(1) have "k * u \<le> z div u * u" by (simp add: mult_le_cancel_right)
  with k show ?thesis by (simp add: mult.commute)
qed

lemma floor_succ_le_multiple:
  fixes u d z :: int
  assumes "0 < u" and "u dvd d" and "z < d"
  shows "z div u * u + u \<le> d"
proof -
  from assms(2) obtain k where "d = u * k" by (rule dvdE)
  then have k: "d = k * u" by (simp add: mult.commute)
  have "z div u * u + z mod u = z" by simp
  moreover have "0 \<le> z mod u" using assms(1) by simp
  ultimately have "z div u * u \<le> z" by linarith
  with assms(3) k have "z div u * u < k * u" by simp
  with assms(1) have "z div u < k" by (simp add: mult_less_cancel_right)
  then have "(z div u + 1) * u \<le> k * u" using assms(1) by (simp add: mult_le_cancel_right)
  with k show ?thesis by (simp add: algebra_simps)
qed

lemma round_double_cases:
  assumes "0 \<le> z"
  shows "round_double z = z div ulp z * ulp z
       \<or> (z mod ulp z \<noteq> 0 \<and> round_double z = z div ulp z * ulp z + ulp z)"
proof (cases "z = 0")
  case True
  then show ?thesis by (simp add: round_double_def)
next
  case False
  with assms have "sgn z = 1" and "\<bar>z\<bar> = z" by simp_all
  then show ?thesis
    using ulp_pos [of z] by (auto simp: round_double_def Let_def algebra_simps)
qed


lemma ulp_dvd_power:
  assumes "bitlen z - 53 \<le> int n"
  shows "ulp z dvd 2 ^ n"
proof -
  from assms have "nat (bitlen z - 53) \<le> n" by simp
  then show ?thesis unfolding ulp_def by (rule le_imp_power_dvd)
qed

text \<open>Rounding never passes a representable number.\<close>

lemma round_double_lower:
  assumes "representable c" and "0 \<le> c" and "c \<le> z"
  shows "c \<le> round_double z"
proof -
  from assms have z0: "0 \<le> z" by simp
  have fl: "c \<le> z div ulp z * ulp z"
  proof (cases "c = 0")
    case True
    with z0 ulp_pos [of z] show ?thesis by (simp add: pos_imp_zdiv_nonneg_iff)
  next
    case False
    with assms have cpos: "0 < c" and zpos: "0 < z" by simp_all
    from bitlen_bounds [OF zpos] have zb: "2 ^ nat (bitlen z - 1) \<le> z" "z < 2 ^ nat (bitlen z)"
      by simp_all
    from zb(2) assms(3) have "c < 2 ^ nat (bitlen z)" by simp
    then have le: "bitlen c \<le> bitlen z" by (simp add: bitlen_le_iff_power bitlen_nonneg)
    show ?thesis
    proof (cases "bitlen c = bitlen z")
      case True
      then have "ulp c = ulp z" by (simp add: ulp_def)
      with assms(1,2) have "ulp z dvd c" by (simp add: representable_def)
      with ulp_pos [of z] show ?thesis using assms(3) by (rule multiple_le_floor)
    next
      case False
      with le have "bitlen c \<le> bitlen z - 1" by simp
      then have "bitlen z - 1 \<ge> 0 \<and> c < 2 ^ nat (bitlen z - 1)"
        by (rule iffD1 [OF bitlen_le_iff_power])
      then have c1: "c < 2 ^ nat (bitlen z - 1)" by simp
      have "bitlen z - 53 \<le> int (nat (bitlen z - 1))" by simp
      then have "ulp z dvd 2 ^ nat (bitlen z - 1)" by (rule ulp_dvd_power)
      with ulp_pos [of z] have "2 ^ nat (bitlen z - 1) \<le> z div ulp z * ulp z"
        using zb(1) by (rule multiple_le_floor)
      with c1 show ?thesis by simp
    qed
  qed
  from round_double_cases [OF z0] ulp_pos [of z] fl show ?thesis by auto
qed

lemma round_double_upper:
  assumes "representable d" and "0 \<le> z" and "z \<le> d"
  shows "round_double z \<le> d"
proof (cases "round_double z = z div ulp z * ulp z")
  case True
  have "z div ulp z * ulp z + z mod ulp z = z" by simp
  moreover have "0 \<le> z mod ulp z" using ulp_pos [of z] by simp
  ultimately have "z div ulp z * ulp z \<le> z" by linarith
  with True assms(3) show ?thesis by simp
next
  case False
  with round_double_cases [OF assms(2)]
  have rest: "z mod ulp z \<noteq> 0" and r: "round_double z = z div ulp z * ulp z + ulp z"
    by auto
  from rest have zpos: "0 < z" using assms(2) by (cases "z = 0") simp_all
  from bitlen_bounds [OF zpos] have zb: "z < 2 ^ nat (bitlen z)" by simp
  have "z div ulp z * ulp z + ulp z \<le> d"
  proof (cases "bitlen d = bitlen z")
    case True
    then have "ulp d = ulp z" by (simp add: ulp_def)
    with assms have dv: "ulp z dvd d" by (simp add: representable_def)
    with rest have "z \<noteq> d" by auto
    with assms(3) have "z < d" by simp
    with ulp_pos [of z] dv show ?thesis by (rule floor_succ_le_multiple)
  next
    case False
    from assms(3) zpos have dpos: "0 < d" by simp
    from bitlen_bounds [OF dpos] have "d < 2 ^ nat (bitlen d)" by simp
    with assms(3) have "z < 2 ^ nat (bitlen d)" by simp
    then have "bitlen z \<le> bitlen d" by (simp add: bitlen_le_iff_power bitlen_nonneg)
    with False have "bitlen z + 1 \<le> bitlen d" by simp
    then have "2 ^ (nat (bitlen z + 1) - 1) \<le> d"
      using bitlen_nonneg [of z] by (simp add: bitlen_ge_iff_power)
    moreover have "nat (bitlen z + 1) - 1 = nat (bitlen z)" by simp
    ultimately have big: "2 ^ nat (bitlen z) \<le> d" by simp
    have "bitlen z - 53 \<le> int (nat (bitlen z))" by simp
    then have "ulp z dvd 2 ^ nat (bitlen z)" by (rule ulp_dvd_power)
    with ulp_pos [of z] have "z div ulp z * ulp z + ulp z \<le> 2 ^ nat (bitlen z)"
      using zb by (rule floor_succ_le_multiple)
    with big show ?thesis by simp
  qed
  with r show ?thesis by simp
qed

text \<open>The result of rounding is representable.\<close>

lemma round_double_representable:
  assumes "0 \<le> z"
  shows "representable (round_double z) \<and> 0 \<le> round_double z"
proof (cases "z = 0")
  case True
  then show ?thesis by (simp add: round_double_def representable_def)
next
  case False
  with assms have zpos: "0 < z" by simp
  let ?r = "round_double z"
  let ?L = "bitlen z"
  from bitlen_bounds [OF zpos] have zb: "2 ^ nat (?L - 1) \<le> z" "z < 2 ^ nat ?L" by simp_all
  from zpos have L1: "1 \<le> ?L" using bitlen_eq_zero_iff [of z] bitlen_nonneg [of z] by simp
  have "bitlen z - 53 \<le> int (nat (?L - 1))" using L1 by simp
  then have d1: "ulp z dvd 2 ^ nat (?L - 1)" by (rule ulp_dvd_power)
  have "bitlen z - 53 \<le> int (nat ?L)" by simp
  then have d2: "ulp z dvd 2 ^ nat ?L" by (rule ulp_dvd_power)
  from ulp_pos [of z] d1 zb(1) have lo: "2 ^ nat (?L - 1) \<le> z div ulp z * ulp z"
    by (rule multiple_le_floor)
  from ulp_pos [of z] d2 zb(2) have hi: "z div ulp z * ulp z + ulp z \<le> 2 ^ nat ?L"
    by (rule floor_succ_le_multiple)
  from round_double_cases [OF assms] ulp_pos [of z] lo hi
  have rb: "2 ^ nat (?L - 1) \<le> ?r" "?r \<le> 2 ^ nat ?L" by auto
  from round_double_cases [OF assms] have dv: "ulp z dvd ?r" by auto
  have "(0::int) < 2 ^ nat (?L - 1)" by simp
  with rb(1) have rpos: "0 < ?r" by linarith
  have "ulp ?r dvd ?r"
  proof (cases "?r = 2 ^ nat ?L")
    case True
    have "bitlen (2 ^ nat ?L) = int (nat ?L) + 1" by (rule bitlen_between) simp_all
    then have "bitlen ?r - 53 \<le> int (nat ?L)" using True by simp
    then have "ulp ?r dvd 2 ^ nat ?L" by (rule ulp_dvd_power)
    with True show ?thesis by simp
  next
    case False
    with rb(2) have "?r < 2 ^ nat ?L" by simp
    moreover have "nat ?L = Suc (nat (?L - 1))" using L1 by simp
    ultimately have "?r < 2 ^ Suc (nat (?L - 1))" by simp
    with rb(1) have "bitlen ?r = int (nat (?L - 1)) + 1" by (rule bitlen_between)
    with L1 have "bitlen ?r = ?L" by simp
    then have "ulp ?r = ulp z" by (simp add: ulp_def)
    with dv show ?thesis by simp
  qed
  with rpos show ?thesis by (simp add: representable_def)
qed

section \<open>Gather yields\<close>

lemma or_zero_count: "or_zero (m k) = count_of m k"
  by (simp add: or_zero_def count_of_def split: option.splits)

lemma count_add_resource:
  "count_of (add_resource e m) k =
     (if fst e = k then round_double (count_of m k + snd e) else count_of m k)"
  by (cases e) (simp add: add_resource_def js_add_def or_zero_count, simp add: count_of_def)

lemma yield_of_Cons:
  "yield_of (e # rs) k = (if fst e = k then snd e else 0) + yield_of rs k"
  by (simp add: yield_of_def)

lemma yield_of_nonneg: "\<forall>x \<in> set rs. 0 \<le> snd x \<Longrightarrow> 0 \<le> yield_of rs k"
  by (auto simp: yield_of_def intro!: sum_list_nonneg)

text \<open>Within the exactly held integers a pass over a yield table adds the yield.\<close>

lemma count_fold_add_resource:
  assumes "\<forall>x \<in> set rs. 0 \<le> snd x"
    and "\<forall>k. 0 \<le> count_of m k \<and> count_of m k + yield_of rs k \<le> 2 ^ 53"
  shows "count_of (fold add_resource rs m) k = count_of m k + yield_of rs k"
  using assms
proof (induction rs arbitrary: m)
  case Nil
  show ?case by (simp add: yield_of_def)
next
  case (Cons e rs)
  from Cons.prems(1) have e0: "0 \<le> snd e" and rs0: "\<forall>x \<in> set rs. 0 \<le> snd x" by simp_all
  have step: "count_of (add_resource e m) j = count_of m j + (if fst e = j then snd e else 0)"
    for j
  proof (cases "fst e = j")
    case True
    from Cons.prems(2) have "0 \<le> count_of m j"
      and "count_of m j + yield_of (e # rs) j \<le> 2 ^ 53" by simp_all
    moreover have "0 \<le> yield_of rs j" using rs0 by (rule yield_of_nonneg)
    ultimately have "\<bar>count_of m j + snd e\<bar> \<le> 2 ^ 53"
      using e0 True by (simp add: yield_of_Cons)
    then have "round_double (count_of m j + snd e) = count_of m j + snd e"
      by (rule round_double_safe)
    with True show ?thesis by (simp add: count_add_resource)
  next
    case False
    then show ?thesis by (simp add: count_add_resource)
  qed
  have "\<forall>j. 0 \<le> count_of (add_resource e m) j
           \<and> count_of (add_resource e m) j + yield_of rs j \<le> 2 ^ 53"
  proof
    fix j
    from Cons.prems(2) have "0 \<le> count_of m j"
      and "count_of m j + yield_of (e # rs) j \<le> 2 ^ 53" by simp_all
    with e0 show "0 \<le> count_of (add_resource e m) j
           \<and> count_of (add_resource e m) j + yield_of rs j \<le> 2 ^ 53"
      by (simp add: step yield_of_Cons)
  qed
  with rs0 have "count_of (fold add_resource rs (add_resource e m)) k
               = count_of (add_resource e m) k + yield_of rs k"
    by (rule Cons.IH)
  then show ?case by (simp add: step yield_of_Cons)
qed

text \<open>In general a pass keeps the counts sound and lowers none.\<close>

lemma sound_add_resource:
  assumes "sound_inventory m" and "0 \<le> snd e"
  shows "sound_inventory (add_resource e m) \<and> count_of m k \<le> count_of (add_resource e m) k"
proof -
  have one: "0 \<le> count_of (add_resource e m) j \<and> representable (count_of (add_resource e m) j)
           \<and> count_of m j \<le> count_of (add_resource e m) j" for j
  proof (cases "fst e = j")
    case True
    from assms(1) have c: "0 \<le> count_of m j" "representable (count_of m j)"
      by (simp_all add: sound_inventory_def)
    with assms(2) have z: "0 \<le> count_of m j + snd e" "count_of m j \<le> count_of m j + snd e"
      by simp_all
    from round_double_representable [OF z(1)] round_double_lower [OF c(2) c(1) z(2)] True
    show ?thesis by (simp add: count_add_resource)
  next
    case False
    with assms(1) show ?thesis by (simp add: count_add_resource sound_inventory_def)
  qed
  then show ?thesis by (simp add: sound_inventory_def)
qed

lemma sound_fold_add_resource:
  assumes "sound_inventory m" and "\<forall>x \<in> set rs. 0 \<le> snd x"
  shows "sound_inventory (fold add_resource rs m) \<and> count_of m k \<le> count_of (fold add_resource rs m) k"
  using assms
proof (induction rs arbitrary: m)
  case Nil
  then show ?case by simp
next
  case (Cons e rs)
  from Cons.prems(2) have e0: "0 \<le> snd e" and rs0: "\<forall>x \<in> set rs. 0 \<le> snd x" by simp_all
  from sound_add_resource [OF Cons.prems(1) e0, of k]
  have s1: "sound_inventory (add_resource e m)"
    and m1: "count_of m k \<le> count_of (add_resource e m) k" by simp_all
  from Cons.IH [OF s1 rs0] m1 show ?case by simp
qed


lemma gather_success:
  assumes "2 \<le> ap s" and "lookup tiles (key_of (playerPos s)) = Some t"
    and "type t \<noteq> ''home''" and "resources t \<noteq> []"
  shows "gather tiles s =
           Inr (showMessage
                  (''Gathered: '' @
                   join '', '' (map (\<lambda>(r, a). r @ '' +'' @ num_to_string a) (resources t)))
                  (s\<lparr>inventory := fold add_resource (resources t) (inventory s),
                     ap := ap s - 2\<rparr>))"
  using assms by (simp add: gather_def Let_def)

lemma gather_adds_yield:
  assumes "2 \<le> ap s" and "lookup tiles (key_of (playerPos s)) = Some t"
    and "type t \<noteq> ''home''" and "resources t \<noteq> []"
    and "\<forall>x \<in> set (resources t). 0 \<le> snd x"
    and "\<forall>k. 0 \<le> count_of (inventory s) k
              \<and> count_of (inventory s) k + yield_of (resources t) k \<le> 2 ^ 53"
  shows "\<exists>s'. gather tiles s = Inr s' \<and> playerPos s' = playerPos s \<and> ap s' = ap s - 2
            \<and> (\<forall>k. count_of (inventory s') k = count_of (inventory s) k + yield_of (resources t) k)"
  using gather_success [OF assms(1-4)] count_fold_add_resource [OF assms(5,6)]
  by (simp add: showMessage_def)

lemma gather_repeated:
  assumes "lookup tiles (key_of (playerPos s)) = Some t"
    and "type t \<noteq> ''home''" and "resources t \<noteq> []"
    and "\<forall>x \<in> set (resources t). 0 \<le> snd x"
    and "2 * int n \<le> ap s"
    and "\<forall>k. 0 \<le> count_of (inventory s) k
              \<and> count_of (inventory s) k + int n * yield_of (resources t) k \<le> 2 ^ 53"
  shows "\<exists>s'. run tiles s (replicate n Gather) = Inr s' \<and> playerPos s' = playerPos s
            \<and> ap s' = ap s - 2 * int n
            \<and> (\<forall>k. count_of (inventory s') k =
                     count_of (inventory s) k + int n * yield_of (resources t) k)"
  using assms(1,5,6)
proof (induction n arbitrary: s)
  case 0
  then show ?case by simp
next
  case (Suc n)
  have y0: "0 \<le> yield_of (resources t) k" for k using assms(4) by (rule yield_of_nonneg)
  from Suc.prems(2) have two: "2 \<le> ap s" by simp
  have safe1: "\<forall>k. 0 \<le> count_of (inventory s) k
                 \<and> count_of (inventory s) k + yield_of (resources t) k \<le> 2 ^ 53"
  proof
    fix k
    from Suc.prems(3) have a: "0 \<le> count_of (inventory s) k"
      and b: "count_of (inventory s) k + int (Suc n) * yield_of (resources t) k \<le> 2 ^ 53"
      by simp_all
    have "0 \<le> int n * yield_of (resources t) k" using y0 [of k] by simp
    with b have "count_of (inventory s) k + yield_of (resources t) k \<le> 2 ^ 53"
      by (simp add: algebra_simps)
    with a show "0 \<le> count_of (inventory s) k
                 \<and> count_of (inventory s) k + yield_of (resources t) k \<le> 2 ^ 53" by simp
  qed
  from gather_adds_yield [OF two Suc.prems(1) assms(2,3,4) safe1]
  obtain s1 where g: "gather tiles s = Inr s1" and p: "playerPos s1 = playerPos s"
    and a: "ap s1 = ap s - 2"
    and c: "\<forall>k. count_of (inventory s1) k = count_of (inventory s) k + yield_of (resources t) k"
    by blast
  from p Suc.prems(1) have l1: "lookup tiles (key_of (playerPos s1)) = Some t" by simp
  from a Suc.prems(2) have b1: "2 * int n \<le> ap s1" by simp
  have safe2: "\<forall>k. 0 \<le> count_of (inventory s1) k
                 \<and> count_of (inventory s1) k + int n * yield_of (resources t) k \<le> 2 ^ 53"
  proof
    fix k
    from Suc.prems(3) have "0 \<le> count_of (inventory s) k"
      and "count_of (inventory s) k + int (Suc n) * yield_of (resources t) k \<le> 2 ^ 53"
      by simp_all
    with c y0 [of k] show "0 \<le> count_of (inventory s1) k
                 \<and> count_of (inventory s1) k + int n * yield_of (resources t) k \<le> 2 ^ 53"
      by (simp add: algebra_simps)
  qed
  from Suc.IH [OF l1 b1 safe2]
  obtain s2 where r: "run tiles s1 (replicate n Gather) = Inr s2"
    and p2: "playerPos s2 = playerPos s1" and a2: "ap s2 = ap s1 - 2 * int n"
    and c2: "\<forall>k. count_of (inventory s2) k =
                 count_of (inventory s1) k + int n * yield_of (resources t) k"
    by blast
  have "run tiles s (replicate (Suc n) Gather) = Inr s2" using g r by simp
  moreover have "playerPos s2 = playerPos s" using p p2 by simp
  moreover have "ap s2 = ap s - 2 * int (Suc n)" using a a2 by simp
  moreover have "\<forall>k. count_of (inventory s2) k =
                      count_of (inventory s) k + int (Suc n) * yield_of (resources t) k"
    using c c2 by (simp add: algebra_simps)
  ultimately show ?case by blast
qed

lemma TILE_DATA_yields_positive:
  "\<forall>e \<in> set TILE_DATA. \<forall>x \<in> set (resources (snd e)). 0 < snd x \<and> snd x \<le> 3"
  by (simp add: TILE_DATA_def)

lemma TILE_DATA_yields_nonneg:
  assumes "lookup TILE_DATA key = Some t"
  shows "\<forall>x \<in> set (resources t). 0 \<le> snd x"
proof -
  from assms have "(key, t) \<in> set TILE_DATA" by (simp add: lookup_def map_of_SomeD)
  with TILE_DATA_yields_positive have "\<forall>x \<in> set (resources t). 0 < snd x \<and> snd x \<le> 3"
    by fastforce
  then show ?thesis by fastforce
qed

lemma gather_sound:
  assumes "sound_inventory (inventory s)" and "gather TILE_DATA s = Inr s'"
  shows "sound_inventory (inventory s') \<and> count_of (inventory s) k \<le> count_of (inventory s') k"
proof (cases "2 \<le> ap s \<and> (\<exists>t. lookup TILE_DATA (key_of (playerPos s)) = Some t
                               \<and> type t \<noteq> ''home'' \<and> resources t \<noteq> [])")
  case True
  then obtain t where two: "2 \<le> ap s" and l: "lookup TILE_DATA (key_of (playerPos s)) = Some t"
    and h: "type t \<noteq> ''home''" and e: "resources t \<noteq> []" by blast
  from gather_success [OF two l h e] assms(2)
  have "inventory s' = fold add_resource (resources t) (inventory s)"
    by (auto simp: showMessage_def)
  with sound_fold_add_resource [OF assms(1) TILE_DATA_yields_nonneg [OF l], of k]
  show ?thesis by simp
next
  case False
  with assms(2) have "inventory s' = inventory s"
    by (auto simp: gather_def showMessage_def Let_def split: option.splits if_splits)
  with assms(1) show ?thesis by simp
qed

lemma step_sound:
  assumes "sound_inventory (inventory s)" and "step TILE_DATA s a = Inr s'"
  shows "sound_inventory (inventory s') \<and> count_of (inventory s) k \<le> count_of (inventory s') k"
proof (cases a)
  case (Move d)
  with assms(2) have "inventory s' = inventory s"
    by (auto simp: move_def showMessage_def Let_def split: option.splits)
  with assms(1) show ?thesis by simp
next
  case Gather
  with assms show ?thesis by (simp add: gather_sound)
next
  case Alchemy
  with assms(2) have "inventory s' = inventory s" by (auto simp: alchemy_def showMessage_def)
  with assms(1) show ?thesis by simp
next
  case RestoreAP
  with assms(2) have "inventory s' = inventory s" by (auto simp: restoreAP_def showMessage_def)
  with assms(1) show ?thesis by simp
qed

lemma run_sound:
  "sound_inventory (inventory s) \<Longrightarrow> run TILE_DATA s as = Inr s' \<Longrightarrow>
     sound_inventory (inventory s') \<and> count_of (inventory s) k \<le> count_of (inventory s') k"
proof (induction as arbitrary: s)
  case Nil
  then show ?case by simp
next
  case (Cons a as)
  from Cons.prems(2) obtain s1 where s1: "step TILE_DATA s a = Inr s1"
    and rest: "run TILE_DATA s1 as = Inr s'"
    by (auto split: sum.splits)
  from step_sound [OF Cons.prems(1) s1, of k]
  have a: "sound_inventory (inventory s1)"
    and b: "count_of (inventory s) k \<le> count_of (inventory s1) k" by simp_all
  from Cons.IH [OF a rest] b show ?case by simp
qed

lemma reachable_sound: "reachable TILE_DATA s \<Longrightarrow> sound_inventory (inventory s)"
proof (induction rule: reachable.induct)
  case reachable_init
  show ?case by (simp add: init_def sound_inventory_def count_of_def representable_def)
next
  case (reachable_step s a s')
  from step_sound [OF reachable_step.IH reachable_step.hyps(2)] show ?case by simp
qed


lemma representable_even:
  assumes "0 \<le> z" and "z \<le> 2 ^ 54" and "even z"
  shows "representable z"
proof (cases "z \<le> 2 ^ 53")
  case True
  with assms(1) have "\<bar>z\<bar> \<le> 2 ^ 53" by simp
  then show ?thesis by (rule representable_safe)
next
  case False
  then have lo: "2 ^ 53 \<le> z" by simp
  show ?thesis
  proof (cases "z = 2 ^ 54")
    case True
    have "bitlen ((2::int) ^ 54) = int 54 + 1" by (rule bitlen_between) simp_all
    then have "ulp (2 ^ 54) = 4" by (simp add: ulp_def)
    with True assms(1) show ?thesis by (simp add: representable_def)
  next
    case False
    with assms(2) have "z < 2 ^ Suc 53" by simp
    with lo have "bitlen z = int 53 + 1" by (rule bitlen_between)
    then have "ulp z = 2" by (simp add: ulp_def)
    with assms(1,3) show ?thesis by (simp add: representable_def)
  qed
qed

lemma TILE_DATA_summit: "lookup TILE_DATA (key_of \<lparr>q = 0, r = -3\<rparr>) = Some summit_tile"
  by (simp add: lookup_def eval_key TILE_DATA_def summit_tile_def)

lemma run_to_harvest:
  "run TILE_DATA init [Move N, Move N, Move N, RestoreAP, Gather] = Inr (harvest 1)"
  by (simp add: init_def harvest_def move_def gather_def restoreAP_def showMessage_def
      lookup_def eval_key TILE_DATA_def add_resource_def or_zero_def js_add_def round_double_safe)

lemma gather_harvest:
  "gather TILE_DATA (harvest n) =
     Inr ((harvest n)\<lparr>inventory := [''wheat'' \<mapsto> round_double (2 * int n + 2)], ap := 4\<rparr>)"
proof -
  have "2 \<le> ap (harvest n)" by (simp add: harvest_def)
  moreover have "lookup TILE_DATA (key_of (playerPos (harvest n))) = Some summit_tile"
    using TILE_DATA_summit by (simp add: harvest_def)
  moreover have "type summit_tile \<noteq> ''home''" and "resources summit_tile \<noteq> []"
    by (simp_all add: summit_tile_def)
  ultimately show ?thesis
    by (simp add: gather_success summit_tile_def harvest_def showMessage_def add_resource_def
        or_zero_def js_add_def num_to_string_def digits.simps digit_char_def)
qed

lemma harvest_round:
  assumes "Suc n \<le> 2 ^ 53"
  shows "run TILE_DATA (harvest n) [RestoreAP, Gather] = Inr (harvest (Suc n))"
proof -
  from assms have "int (Suc n) \<le> 2 ^ 53" by (metis of_nat_le_iff of_nat_numeral of_nat_power)
  then have "2 * int n + 2 \<le> 2 ^ 54" by simp
  then have "representable (2 * int n + 2)" by (intro representable_even) simp_all
  then have "round_double (2 * int n + 2) = 2 * int n + 2" by (rule representable_exact)
  moreover have "restoreAP (harvest n) = (harvest n)\<lparr>ap := 8, message := ''AP restored to 8!''\<rparr>"
    by (simp add: restoreAP_def showMessage_def)
  moreover have "gather TILE_DATA ((harvest n)\<lparr>ap := 8, message := ''AP restored to 8!''\<rparr>)
      = Inr ((harvest n)\<lparr>inventory := [''wheat'' \<mapsto> round_double (2 * int n + 2)]\<rparr>)"
    using TILE_DATA_summit
    by (simp add: gather_def summit_tile_def harvest_def showMessage_def add_resource_def
        or_zero_def js_add_def num_to_string_def digits.simps digit_char_def)
  ultimately show ?thesis by (simp add: harvest_def algebra_simps)
qed

lemma reachable_harvest:
  "1 \<le> n \<Longrightarrow> n \<le> 2 ^ 53 \<Longrightarrow> reachable TILE_DATA (harvest n)"
proof (induction n)
  case 0
  then show ?case by simp
next
  case (Suc n)
  show ?case
  proof (cases "n = 0")
    case True
    from reachable_init run_to_harvest have "reachable TILE_DATA (harvest 1)"
      by (rule reachable_run)
    with True show ?thesis by simp
  next
    case False
    with Suc.prems have "1 \<le> n" and "n \<le> 2 ^ 53" by simp_all
    then have "reachable TILE_DATA (harvest n)" by (rule Suc.IH)
    then show ?thesis using harvest_round [OF Suc.prems(2)] by (rule reachable_run)
  qed
qed

lemma round_double_stuck: "round_double (2 * 2 ^ 53 + 2) = 2 * 2 ^ 53"
  by code_simp

lemma round_double_four: "round_double 4 = 4"
  by (rule round_double_safe) simp

text \<open>Counts stay far below the range where a sum would be infinite.\<close>

lemma round_double_capped:
  assumes "0 \<le> c" and "c \<le> 2 ^ 55" and "0 \<le> a" and "a \<le> 3"
  shows "round_double (c + a) \<le> 2 ^ 55"
proof (cases "c + a \<le> 2 ^ 55")
  case True
  have "bitlen ((2::int) ^ 55) = int 55 + 1" by (rule bitlen_between) simp_all
  then have "ulp (2 ^ 55) = 8" by (simp add: ulp_def)
  then have "representable (2 ^ 55)" by (simp add: representable_def)
  moreover from assms have "0 \<le> c + a" by simp
  ultimately show ?thesis using True by (rule round_double_upper)
next
  case False
  let ?z = "c + a"
  from False assms have lo: "2 ^ 55 \<le> ?z" and hi: "?z \<le> 2 ^ 55 + 3" and ne: "?z \<noteq> 2 ^ 55"
    by simp_all
  from hi have "?z < 2 ^ Suc 55" by simp
  with lo have "bitlen ?z = int 55 + 1" by (rule bitlen_between)
  then have u: "ulp ?z = 8" by (simp add: ulp_def)
  define d where "d = ?z - 2 ^ 55"
  from lo hi have d: "0 \<le> d" "d < 8" by (simp_all add: d_def)
  have z: "?z = 8 * 2 ^ 52 + d" by (simp add: d_def)
  have "(8 * 2 ^ 52 + d) div 8 = 2 ^ 52 + d div 8" by (rule div_mult_self4) simp
  moreover have "(8 * 2 ^ 52 + d) mod 8 = d mod 8" by (rule mod_mult_self4)
  moreover from d have "d div 8 = 0" and "d mod 8 = d" by simp_all
  ultimately have "?z div 8 = 2 ^ 52 \<and> ?z mod 8 = d" by (simp only: z) simp
  then have dm: "?z div 8 = 2 ^ 52 \<and> ?z mod 8 = ?z - 2 ^ 55" by (simp add: d_def)
  from lo have "\<bar>?z\<bar> = ?z" and "sgn ?z = 1" by simp_all
  with u dm hi have "round_double ?z = 2 ^ 55"
    by (simp add: round_double_def Let_def)
  then show ?thesis by simp
qed


lemma capped_fold_add_resource:
  assumes "sound_inventory m" and "\<forall>k. count_of m k \<le> 2 ^ 55"
    and "\<forall>x \<in> set rs. 0 \<le> snd x \<and> snd x \<le> 3"
  shows "count_of (fold add_resource rs m) k \<le> 2 ^ 55"
  using assms
proof (induction rs arbitrary: m)
  case Nil
  then show ?case by simp
next
  case (Cons e rs)
  from Cons.prems(3) have e: "0 \<le> snd e" "snd e \<le> 3"
    and rs: "\<forall>x \<in> set rs. 0 \<le> snd x \<and> snd x \<le> 3" by simp_all
  from sound_add_resource [OF Cons.prems(1) e(1), of k]
  have s1: "sound_inventory (add_resource e m)" by simp
  have "\<forall>j. count_of (add_resource e m) j \<le> 2 ^ 55"
  proof
    fix j
    from Cons.prems(1) have "0 \<le> count_of m j" by (simp add: sound_inventory_def)
    moreover from Cons.prems(2) have "count_of m j \<le> 2 ^ 55" by simp
    ultimately have "round_double (count_of m j + snd e) \<le> 2 ^ 55"
      using e by (rule round_double_capped)
    with Cons.prems(2) show "count_of (add_resource e m) j \<le> 2 ^ 55"
      by (simp add: count_add_resource)
  qed
  with s1 have "count_of (fold add_resource rs (add_resource e m)) k \<le> 2 ^ 55"
    using rs by (rule Cons.IH)
  then show ?case by simp
qed

lemma reachable_count_capped:
  "reachable TILE_DATA s \<Longrightarrow> \<forall>k. count_of (inventory s) k \<le> 2 ^ 55"
proof (induction rule: reachable.induct)
  case reachable_init
  show ?case by (simp add: init_def count_of_def)
next
  case (reachable_step s a s')
  from reachable_step.hyps(1) have snd: "sound_inventory (inventory s)" by (rule reachable_sound)
  show ?case
  proof (cases "a = Gather \<and> 2 \<le> ap s \<and> (\<exists>t. lookup TILE_DATA (key_of (playerPos s)) = Some t
                               \<and> type t \<noteq> ''home'' \<and> resources t \<noteq> [])")
    case True
    then obtain t where g: "a = Gather" and two: "2 \<le> ap s"
      and l: "lookup TILE_DATA (key_of (playerPos s)) = Some t"
      and h: "type t \<noteq> ''home''" and e: "resources t \<noteq> []" by blast
    from gather_success [OF two l h e] reachable_step.hyps(2) g
    have inv: "inventory s' = fold add_resource (resources t) (inventory s)"
      by (auto simp: showMessage_def)
    from l have "(key_of (playerPos s), t) \<in> set TILE_DATA" by (simp add: lookup_def map_of_SomeD)
    with TILE_DATA_yields_positive have "\<forall>x \<in> set (resources t). 0 < snd x \<and> snd x \<le> 3"
      by fastforce
    then have amounts: "\<forall>x \<in> set (resources t). 0 \<le> snd x \<and> snd x \<le> 3" by fastforce
    show ?thesis
    proof
      fix k
      from capped_fold_add_resource [OF snd reachable_step.IH amounts, of k] inv
      show "count_of (inventory s') k \<le> 2 ^ 55" by simp
    qed
  next
    case False
    with reachable_step.hyps(2) have "inventory s' = inventory s"
      by (cases a)
        (auto simp: move_def gather_def alchemy_def restoreAP_def showMessage_def Let_def
          split: option.splits if_splits)
    with reachable_step.IH show ?thesis by simp
  qed
qed

lemma TILE_DATA_north: "lookup TILE_DATA (key_of \<lparr>q = 0, r = -1\<rparr>) = Some plain_north"
  by (simp add: lookup_def eval_key TILE_DATA_def plain_north_def)

lemma move_north_init: "move TILE_DATA N init = grove"
  using TILE_DATA_north
  by (simp add: move_def init_def grove_def showMessage_def num_to_string_def digits.simps
      digit_char_def)

lemma gather_grove: "gather TILE_DATA grove = Inr laden"
  using TILE_DATA_north
  by (simp add: gather_def grove_def laden_def showMessage_def plain_north_def add_resource_def
      or_zero_def js_add_def round_double_safe num_to_string_def digits.simps digit_char_def)

text \<open>
  Claim C7, as amended.  A successful \<^verbatim>\<open>gather()\<close> (at least two action points, a tile that is not
  the home tile and has a non-empty yield of non-negative amounts) adds to every inventory
  count exactly what the tile's yield table holds for that resource, whatever the
  inventory was, provided no resulting count exceeds \<open>2^53\<close>, up to which every integer is
  held exactly; \<open>n\<close> calls in a row, with action points for all of them, add \<open>n\<close> times
  that under the same proviso.  In every session on the authored map no inventory count
  ever decreases, and every count is non-negative.
\<close>

theorem gather_yield_additive:
  "(2 \<le> ap s \<and> lookup tiles (key_of (playerPos s)) = Some t \<and> type t \<noteq> ''home''
      \<and> resources t \<noteq> [] \<and> (\<forall>x \<in> set (resources t). 0 \<le> snd x)
      \<and> (\<forall>k. 0 \<le> count_of (inventory s) k
              \<and> count_of (inventory s) k + yield_of (resources t) k \<le> 2 ^ 53) \<longrightarrow>
      (\<exists>s'. gather tiles s = Inr s' \<and>
            (\<forall>k. count_of (inventory s') k = count_of (inventory s) k + yield_of (resources t) k)))
   \<and> (2 * int n \<le> ap s \<and> lookup tiles (key_of (playerPos s)) = Some t \<and> type t \<noteq> ''home''
      \<and> resources t \<noteq> [] \<and> (\<forall>x \<in> set (resources t). 0 \<le> snd x)
      \<and> (\<forall>k. 0 \<le> count_of (inventory s) k
              \<and> count_of (inventory s) k + int n * yield_of (resources t) k \<le> 2 ^ 53) \<longrightarrow>
      (\<exists>s'. run tiles s (replicate n Gather) = Inr s' \<and>
            (\<forall>k. count_of (inventory s') k =
                  count_of (inventory s) k + int n * yield_of (resources t) k)))
   \<and> (reachable TILE_DATA u \<and> run TILE_DATA u as = Inr u' \<longrightarrow>
        count_of (inventory u) k \<le> count_of (inventory u') k)
   \<and> (reachable TILE_DATA w \<longrightarrow> 0 \<le> count_of (inventory w) k)"
proof -
  have 1: "2 \<le> ap s \<and> lookup tiles (key_of (playerPos s)) = Some t \<and> type t \<noteq> ''home''
      \<and> resources t \<noteq> [] \<and> (\<forall>x \<in> set (resources t). 0 \<le> snd x)
      \<and> (\<forall>k. 0 \<le> count_of (inventory s) k
              \<and> count_of (inventory s) k + yield_of (resources t) k \<le> 2 ^ 53) \<Longrightarrow>
      (\<exists>s'. gather tiles s = Inr s' \<and>
            (\<forall>k. count_of (inventory s') k = count_of (inventory s) k + yield_of (resources t) k))"
    using gather_adds_yield [of s tiles t] by blast
  have 2: "2 * int n \<le> ap s \<and> lookup tiles (key_of (playerPos s)) = Some t \<and> type t \<noteq> ''home''
      \<and> resources t \<noteq> [] \<and> (\<forall>x \<in> set (resources t). 0 \<le> snd x)
      \<and> (\<forall>k. 0 \<le> count_of (inventory s) k
              \<and> count_of (inventory s) k + int n * yield_of (resources t) k \<le> 2 ^ 53) \<Longrightarrow>
      (\<exists>s'. run tiles s (replicate n Gather) = Inr s' \<and>
            (\<forall>k. count_of (inventory s') k =
                  count_of (inventory s) k + int n * yield_of (resources t) k))"
    using gather_repeated [of tiles s t n] by blast
  have 3: "reachable TILE_DATA u \<and> run TILE_DATA u as = Inr u' \<Longrightarrow>
        count_of (inventory u) k \<le> count_of (inventory u') k"
    using run_sound [of u as u' k] reachable_sound [of u] by blast
  have 4: "reachable TILE_DATA w \<Longrightarrow> 0 \<le> count_of (inventory w) k"
    using reachable_sound [of w] by (simp add: sound_inventory_def)
  from 1 2 3 4 show ?thesis by blast
qed

theorem gather_yield_additive_witness:
  "2 \<le> ap grove \<and> 2 * int 3 \<le> ap grove
   \<and> lookup TILE_DATA (key_of (playerPos grove)) = Some plain_north
   \<and> type plain_north \<noteq> ''home'' \<and> resources plain_north = [(''wood'', 3), (''herbs'', 1)]
   \<and> (\<forall>k. 0 \<le> count_of (inventory grove) k
          \<and> count_of (inventory grove) k + yield_of (resources plain_north) k \<le> 2 ^ 53
          \<and> count_of (inventory grove) k + int 3 * yield_of (resources plain_north) k \<le> 2 ^ 53)
   \<and> (\<exists>s'. gather TILE_DATA grove = Inr s' \<and> count_of (inventory s') ''wood'' = 3
           \<and> count_of (inventory s') ''herbs'' = 1)
   \<and> (\<exists>s'. run TILE_DATA grove (replicate 3 Gather) = Inr s' \<and> count_of (inventory s') ''wood'' = 9
           \<and> count_of (inventory s') ''herbs'' = 3)
   \<and> reachable TILE_DATA grove \<and> run TILE_DATA grove [Gather] = Inr laden
   \<and> reachable TILE_DATA laden
   \<and> count_of (inventory grove) ''wood'' \<le> count_of (inventory laden) ''wood''
   \<and> count_of (inventory laden) ''wood'' = 3
   \<and> 0 \<le> count_of (inventory laden) ''wood''"
proof -
  have a: "2 \<le> ap grove \<and> 2 * int 3 \<le> ap grove" by (simp add: grove_def)
  have b: "lookup TILE_DATA (key_of (playerPos grove)) = Some plain_north"
    using TILE_DATA_north by (simp add: grove_def)
  have c: "type plain_north \<noteq> ''home'' \<and> resources plain_north \<noteq> []
         \<and> (\<forall>x \<in> set (resources plain_north). 0 \<le> snd x)"
    by (simp add: plain_north_def)
  have y: "yield_of (resources plain_north) ''wood'' = 3
         \<and> yield_of (resources plain_north) ''herbs'' = 1"
    by (simp add: yield_of_def plain_north_def)
  have z: "count_of (inventory grove) k = 0" for k
    by (simp add: grove_def count_of_def)
  have yb: "0 \<le> yield_of (resources plain_north) k \<and> yield_of (resources plain_north) k \<le> 4"
    for k by (simp add: yield_of_def plain_north_def)
  have safe: "\<forall>k. 0 \<le> count_of (inventory grove) k
          \<and> count_of (inventory grove) k + yield_of (resources plain_north) k \<le> 2 ^ 53
          \<and> count_of (inventory grove) k + int 3 * yield_of (resources plain_north) k \<le> 2 ^ 53"
  proof
    fix k
    from yb [of k] show "0 \<le> count_of (inventory grove) k
          \<and> count_of (inventory grove) k + yield_of (resources plain_north) k \<le> 2 ^ 53
          \<and> count_of (inventory grove) k + int 3 * yield_of (resources plain_north) k \<le> 2 ^ 53"
      by (simp add: z)
  qed
  have d: "run TILE_DATA init [Move N] = Inr grove" by (simp add: move_north_init)
  have e: "reachable TILE_DATA grove" using reachable_init d by (rule reachable_run)
  have f: "run TILE_DATA grove [Gather] = Inr laden" by (simp add: gather_grove)
  have g: "reachable TILE_DATA laden" using e f by (rule reachable_run)
  have h: "count_of (inventory laden) ''wood'' = 3" by (simp add: laden_def count_of_def)
  from gather_yield_additive [where s = grove and tiles = TILE_DATA and t = plain_north
      and n = 3 and u = grove and as = "[Gather]" and u' = laden and k = "''wood''" and w = laden]
    a b c safe e f g
  have "(\<exists>s'. gather TILE_DATA grove = Inr s' \<and>
            (\<forall>k. count_of (inventory s') k =
                  count_of (inventory grove) k + yield_of (resources plain_north) k))
      \<and> (\<exists>s'. run TILE_DATA grove (replicate 3 Gather) = Inr s' \<and>
            (\<forall>k. count_of (inventory s') k =
                  count_of (inventory grove) k + int 3 * yield_of (resources plain_north) k))
      \<and> count_of (inventory grove) ''wood'' \<le> count_of (inventory laden) ''wood''
      \<and> 0 \<le> count_of (inventory laden) ''wood''"
    by blast
  with y z have "(\<exists>s'. gather TILE_DATA grove = Inr s' \<and> count_of (inventory s') ''wood'' = 3
           \<and> count_of (inventory s') ''herbs'' = 1)
   \<and> (\<exists>s'. run TILE_DATA grove (replicate 3 Gather) = Inr s' \<and> count_of (inventory s') ''wood'' = 9
           \<and> count_of (inventory s') ''herbs'' = 3)
   \<and> count_of (inventory grove) ''wood'' \<le> count_of (inventory laden) ''wood''
   \<and> 0 \<le> count_of (inventory laden) ''wood''"
    by auto
  moreover have "resources plain_north = [(''wood'', 3), (''herbs'', 1)]"
    by (simp add: plain_north_def)
  ultimately show ?thesis using a b c safe e f g h by blast
qed

text \<open>
  The claim as written fails once a count has left that range.  After \<open>2^53\<close> rounds of
  \<^verbatim>\<open>restoreAP\<close> and \<^verbatim>\<open>gather\<close> on the mountain tile (0,-3) the wheat count is \<open>2^54\<close>.
  The next \<^verbatim>\<open>gather()\<close> succeeds, costs two action points and reports ``wheat +2'', but
  the sum \<open>2^54 + 2\<close> rounds back to \<open>2^54\<close>: the count stays as it was, where the first
  \<^verbatim>\<open>gather()\<close> on the same tile added 2.
\<close>

theorem gather_yield_additive_counterexample:
  "reachable TILE_DATA (harvest 1) \<and> reachable TILE_DATA (harvest (2 ^ 53))
   \<and> playerPos (harvest (2 ^ 53)) = playerPos (harvest 1)
   \<and> lookup TILE_DATA (key_of (playerPos (harvest 1))) = Some summit_tile
   \<and> type summit_tile \<noteq> ''home'' \<and> resources summit_tile = [(''wheat'', 2)]
   \<and> 2 \<le> ap (harvest 1) \<and> 2 \<le> ap (harvest (2 ^ 53))
   \<and> gather TILE_DATA (harvest 1) = Inr ((harvest 2)\<lparr>ap := 4\<rparr>)
   \<and> count_of (inventory ((harvest 2)\<lparr>ap := 4\<rparr>)) ''wheat''
       = count_of (inventory (harvest 1)) ''wheat'' + 2
   \<and> gather TILE_DATA (harvest (2 ^ 53)) = Inr ((harvest (2 ^ 53))\<lparr>ap := 4\<rparr>)
   \<and> count_of (inventory ((harvest (2 ^ 53))\<lparr>ap := 4\<rparr>)) ''wheat''
       = count_of (inventory (harvest (2 ^ 53))) ''wheat''"
proof -
  have a: "reachable TILE_DATA (harvest 1)" by (rule reachable_harvest) simp_all
  have b: "reachable TILE_DATA (harvest (2 ^ 53))" by (rule reachable_harvest) simp_all
  have c: "lookup TILE_DATA (key_of (playerPos (harvest 1))) = Some summit_tile"
    using TILE_DATA_summit by (simp add: harvest_def)
  have d: "gather TILE_DATA (harvest 1) = Inr ((harvest 2)\<lparr>ap := 4\<rparr>)"
    using gather_harvest [of 1] round_double_four by (simp add: harvest_def)
  have e: "gather TILE_DATA (harvest (2 ^ 53)) = Inr ((harvest (2 ^ 53))\<lparr>ap := 4\<rparr>)"
    using gather_harvest [of "2 ^ 53"] round_double_stuck by (simp add: harvest_def)
  have f: "type summit_tile \<noteq> ''home'' \<and> resources summit_tile = [(''wheat'', 2)]"
    by (simp add: summit_tile_def)
  have g: "playerPos (harvest (2 ^ 53)) = playerPos (harvest 1)
     \<and> 2 \<le> ap (harvest 1) \<and> 2 \<le> ap (harvest (2 ^ 53))
     \<and> count_of (inventory ((harvest 2)\<lparr>ap := 4\<rparr>)) ''wheat''
         = count_of (inventory (harvest 1)) ''wheat'' + 2
     \<and> count_of (inventory ((harvest (2 ^ 53))\<lparr>ap := 4\<rparr>)) ''wheat''
         = count_of (inventory (harvest (2 ^ 53))) ''wheat''"
    by (simp add: harvest_def count_of_def)
  from a b c d e f g show ?thesis by blast
qed

section \<open>A session, step by step\<close>

text \<open>
  Claim C8.  From the initial state (position (0,0), 8 action points, empty inventory):
  \<^verbatim>\<open>move('N')\<close> gives position (0,-1) and 7 action points; \<^verbatim>\<open>gather()\<close> gives 5 action
  points and the inventory wood 3, herbs 1; \<^verbatim>\<open>move('S')\<close> gives position (0,0) and 4
  action points; \<^verbatim>\<open>gather()\<close> is rejected with ``Nothing to gather at home base!''
  (\<open>InvalidLocation\<close>) and leaves 4 action points; \<^verbatim>\<open>restoreAP()\<close> sets them to 8.
\<close>

theorem scenario:
  "move TILE_DATA N init =
     \<lparr>playerPos = \<lparr>q = 0, r = -1\<rparr>, ap = 7, inventory = Map.empty, message = ''Moved N. AP: 7''\<rparr>
   \<and> gather TILE_DATA
       \<lparr>playerPos = \<lparr>q = 0, r = -1\<rparr>, ap = 7, inventory = Map.empty, message = ''Moved N. AP: 7''\<rparr> =
     Inr \<lparr>playerPos = \<lparr>q = 0, r = -1\<rparr>, ap = 5, inventory = [''wood'' \<mapsto> 3, ''herbs'' \<mapsto> 1],
          message = ''Gathered: wood +3, herbs +1''\<rparr>
   \<and> move TILE_DATA S
       \<lparr>playerPos = \<lparr>q = 0, r = -1\<rparr>, ap = 5, inventory = [''wood'' \<mapsto> 3, ''herbs'' \<mapsto> 1],
        message = ''Gathered: wood +3, herbs +1''\<rparr> =
     \<lparr>playerPos = \<lparr>q = 0, r = 0\<rparr>, ap = 4, inventory = [''wood'' \<mapsto> 3, ''herbs'' \<mapsto> 1],
      message = ''Moved S. AP: 4''\<rparr>
   \<and> gather TILE_DATA
       \<lparr>playerPos = \<lparr>q = 0, r = 0\<rparr>, ap = 4, inventory = [''wood'' \<mapsto> 3, ''herbs'' \<mapsto> 1],
        message = ''Moved S. AP: 4''\<rparr> =
     Inr \<lparr>playerPos = \<lparr>q = 0, r = 0\<rparr>, ap = 4, inventory = [''wood'' \<mapsto> 3, ''herbs'' \<mapsto> 1],
          message = ''Nothing to gather at home base!''\<rparr>
   \<and> restoreAP
       \<lparr>playerPos = \<lparr>q = 0, r = 0\<rparr>, ap = 4, inventory = [''wood'' \<mapsto> 3, ''herbs'' \<mapsto> 1],
        message = ''Nothing to gather at home base!''\<rparr> =
     \<lparr>playerPos = \<lparr>q = 0, r = 0\<rparr>, ap = 8, inventory = [''wood'' \<mapsto> 3, ''herbs'' \<mapsto> 1],
      message = ''AP restored to 8!''\<rparr>
   \<and> playerPos init = \<lparr>q = 0, r = 0\<rparr> \<and> ap init = 8 \<and> inventory init = Map.empty"
proof -
  have north: "lookup TILE_DATA ''0,-1'' = Some plain_north"
    by (simp add: lookup_def TILE_DATA_def plain_north_def)
  have home: "lookup TILE_DATA ''0,0'' = Some home_tile"
    using TILE_DATA_origin by (simp add: key_of_origin)
  have 1: "move TILE_DATA N init =
     \<lparr>playerPos = \<lparr>q = 0, r = -1\<rparr>, ap = 7, inventory = Map.empty, message = ''Moved N. AP: 7''\<rparr>"
    by (simp add: move_def init_def showMessage_def eval_key north)
  have 2: "gather TILE_DATA
       \<lparr>playerPos = \<lparr>q = 0, r = -1\<rparr>, ap = 7, inventory = Map.empty, message = ''Moved N. AP: 7''\<rparr> =
     Inr \<lparr>playerPos = \<lparr>q = 0, r = -1\<rparr>, ap = 5, inventory = [''wood'' \<mapsto> 3, ''herbs'' \<mapsto> 1],
          message = ''Gathered: wood +3, herbs +1''\<rparr>"
    by (simp add: gather_def showMessage_def eval_key north plain_north_def add_resource_def
        or_zero_def js_add_def round_double_safe)
  have 3: "move TILE_DATA S
       \<lparr>playerPos = \<lparr>q = 0, r = -1\<rparr>, ap = 5, inventory = [''wood'' \<mapsto> 3, ''herbs'' \<mapsto> 1],
        message = ''Gathered: wood +3, herbs +1''\<rparr> =
     \<lparr>playerPos = \<lparr>q = 0, r = 0\<rparr>, ap = 4, inventory = [''wood'' \<mapsto> 3, ''herbs'' \<mapsto> 1],
      message = ''Moved S. AP: 4''\<rparr>"
    by (simp add: move_def showMessage_def eval_key home)
  have 4: "gather TILE_DATA
       \<lparr>playerPos = \<lparr>q = 0, r = 0\<rparr>, ap = 4, inventory = [''wood'' \<mapsto> 3, ''herbs'' \<mapsto> 1],
        message = ''Moved S. AP: 4''\<rparr> =
     Inr \<lparr>playerPos = \<lparr>q = 0, r = 0\<rparr>, ap = 4, inventory = [''wood'' \<mapsto> 3, ''herbs'' \<mapsto> 1],
          message = ''Nothing to gather at home base!''\<rparr>"
    by (simp add: gather_def showMessage_def eval_key home home_tile_def)
  have 5: "restoreAP
       \<lparr>playerPos = \<lparr>q = 0, r = 0\<rparr>, ap = 4, inventory = [''wood'' \<mapsto> 3, ''herbs'' \<mapsto> 1],
        message = ''Nothing to gather at home base!''\<rparr> =
     \<lparr>playerPos = \<lparr>q = 0, r = 0\<rparr>, ap = 8, inventory = [''wood'' \<mapsto> 3, ''herbs'' \<mapsto> 1],
      message = ''AP restored to 8!''\<rparr>"
    by (simp add: restoreAP_def showMessage_def)
  have 6: "playerPos init = \<lparr>q = 0, r = 0\<rparr> \<and> ap init = 8 \<and> inventory init = Map.empty"
    by (simp add: init_def)
  from 1 2 3 4 5 6 show ?thesis by blast
qed

end
